theory Spec2Isabelle
  imports Main
begin

section \<open>BaseCounter: the generic repository counter\<close>

text \<open>
  A shallow embedding of \<^verbatim>\<open>src/lib/BaseCounter.js\<close>. Values that reach the class from
  outside (the options object handed to the constructor, the bodies and errors delivered
  by the HTTP client, the records of a page) are dynamically typed and are modelled by
  \<open>jsval\<close>; what the class itself fixes (endpoint, field name, page size, threshold) is
  typed. A call that may throw returns \<open>exn + 'a\<close>, a call that may not return is in the
  option monad, and the mutable things (the params object, the outside world behind the
  HTTP client, the console) are passed in and handed back.
\<close>

subsection \<open>JavaScript values\<close>

text \<open>
  Numbers are the integers that a double holds exactly, and NaN. Fractions and the
  infinities are not represented. Values are JSON data and \<open>undefined\<close>; there are no
  function values, and an object is the list of its own properties in insertion order.
\<close>

datatype number = Num int | NaN

datatype jsval =
    JUndefined
  | JNull
  | JBool bool
  | JNumber number
  | JStr string
  | JArr "jsval list"
  | JObj "(string \<times> jsval) list"

type_synonym jsobj = "(string \<times> jsval) list"

datatype exn = TypeError string | Thrown jsval

text \<open>
  The conversions of the runtime that depend on parsing text or on converting an object
  to a primitive are parameters of the model: \<open>ToPrimitive\<close> for arrays and objects,
  \<open>StringToNumber\<close>, and \<open>DateParse\<close> (the time value of \<^verbatim>\<open>new Date(string)\<close>, NaN for
  an invalid date).
\<close>

record host =
  ToPrimitive :: "jsval \<Rightarrow> exn + jsval"
  StringToNumber :: "string \<Rightarrow> number"
  DateParse :: "string \<Rightarrow> number"

fun truthy :: "jsval \<Rightarrow> bool" where
  "truthy JUndefined = False"
| "truthy JNull = False"
| "truthy (JBool b) = b"
| "truthy (JNumber NaN) = False"
| "truthy (JNumber (Num n)) = (n \<noteq> 0)"
| "truthy (JStr s) = (s \<noteq> [])"
| "truthy (JArr xs) = True"
| "truthy (JObj kvs) = True"

text \<open>\<^verbatim>\<open>a || b\<close>\<close>

definition js_or :: "jsval \<Rightarrow> jsval \<Rightarrow> jsval" where
  "js_or a b = (if truthy a then a else b)"

fun typeof :: "jsval \<Rightarrow> string" where
  "typeof JUndefined = ''undefined''"
| "typeof JNull = ''object''"
| "typeof (JBool b) = ''boolean''"
| "typeof (JNumber n) = ''number''"
| "typeof (JStr s) = ''string''"
| "typeof (JArr xs) = ''object''"
| "typeof (JObj kvs) = ''object''"

text \<open>\<^verbatim>\<open>a < b\<close> on numbers: false as soon as one side is NaN.\<close>

fun num_lt :: "number \<Rightarrow> number \<Rightarrow> bool" where
  "num_lt (Num a) (Num b) = (a < b)"
| "num_lt _ _ = False"

fun num_add :: "number \<Rightarrow> number \<Rightarrow> number" where
  "num_add (Num a) (Num b) = Num (a + b)"
| "num_add _ _ = NaN"

fun num_sub :: "number \<Rightarrow> number \<Rightarrow> number" where
  "num_sub (Num a) (Num b) = Num (a - b)"
| "num_sub _ _ = NaN"

function nat_to_string :: "nat \<Rightarrow> string" where
  "nat_to_string n =
     (if n < 10 then [char_of (48 + n)]
      else nat_to_string (n div 10) @ [char_of (48 + n mod 10)])"
  by pat_completeness auto
termination
  by (relation "measure id") auto

declare nat_to_string.simps [simp del]

fun number_to_string :: "number \<Rightarrow> string" where
  "number_to_string NaN = ''NaN''"
| "number_to_string (Num n) =
     (if n < 0 then CHR ''-'' # nat_to_string (nat (- n)) else nat_to_string (nat n))"

text \<open>Own properties: reading one that is absent gives \<open>undefined\<close>; writing keeps the
  position of a property that exists and appends a new one.\<close>

definition obj_get :: "jsobj \<Rightarrow> string \<Rightarrow> jsval" where
  "obj_get obj k = (case map_of obj k of None \<Rightarrow> JUndefined | Some v \<Rightarrow> v)"

fun obj_set :: "string \<Rightarrow> jsval \<Rightarrow> jsobj \<Rightarrow> jsobj" where
  "obj_set k v [] = [(k, v)]"
| "obj_set k v ((k', v') # rest) =
     (if k' = k then (k, v) # rest else (k', v') # obj_set k v rest)"

text \<open>\<^verbatim>\<open>{...base, ...extra}\<close>\<close>

definition object_spread :: "jsobj \<Rightarrow> jsobj \<Rightarrow> jsobj" where
  "object_spread base extra = fold (\<lambda>(k, v). obj_set k v) extra base"

text \<open>\<^verbatim>\<open>v[n]\<close> with a number as key. On an array or a string an index in range selects
  the element and any other number names no property.\<close>

fun js_index :: "jsval \<Rightarrow> number \<Rightarrow> exn + jsval" where
  "js_index JUndefined n = Inl (TypeError ''Cannot read properties of undefined'')"
| "js_index JNull n = Inl (TypeError ''Cannot read properties of null'')"
| "js_index (JArr xs) (Num i) =
     (if 0 \<le> i \<and> i < int (length xs) then Inr (xs ! nat i) else Inr JUndefined)"
| "js_index (JStr s) (Num i) =
     (if 0 \<le> i \<and> i < int (length s) then Inr (JStr [s ! nat i]) else Inr JUndefined)"
| "js_index (JObj kvs) n = Inr (obj_get kvs (number_to_string n))"
| "js_index _ n = Inr JUndefined"

text \<open>\<^verbatim>\<open>v[k]\<close> and \<^verbatim>\<open>v.k\<close> with a string as key. The members that a value inherits from
  its prototype are functions and are not represented, so only \<open>length\<close> and the indices
  are found on arrays and strings.\<close>

definition index_of_key :: "string \<Rightarrow> nat \<Rightarrow> nat option" where
  "index_of_key k n = find (\<lambda>i. nat_to_string i = k) [0..<n]"

fun get_prop :: "jsval \<Rightarrow> string \<Rightarrow> exn + jsval" where
  "get_prop JUndefined k = Inl (TypeError ''Cannot read properties of undefined'')"
| "get_prop JNull k = Inl (TypeError ''Cannot read properties of null'')"
| "get_prop (JObj kvs) k = Inr (obj_get kvs k)"
| "get_prop (JArr xs) k =
     (if k = ''length'' then Inr (JNumber (Num (int (length xs))))
      else case index_of_key k (length xs) of
             None \<Rightarrow> Inr JUndefined | Some i \<Rightarrow> Inr (xs ! i))"
| "get_prop (JStr s) k =
     (if k = ''length'' then Inr (JNumber (Num (int (length s))))
      else case index_of_key k (length s) of
             None \<Rightarrow> Inr JUndefined | Some i \<Rightarrow> Inr (JStr [s ! i]))"
| "get_prop (JBool b) k = Inr JUndefined"
| "get_prop (JNumber n) k = Inr JUndefined"

text \<open>ToNumber and ToString. A primitive is converted here; an array or an object is
  first made primitive by the host.\<close>

fun to_number_prim :: "host \<Rightarrow> jsval \<Rightarrow> exn + number" where
  "to_number_prim h JUndefined = Inr NaN"
| "to_number_prim h JNull = Inr (Num 0)"
| "to_number_prim h (JBool b) = Inr (Num (if b then 1 else 0))"
| "to_number_prim h (JNumber n) = Inr n"
| "to_number_prim h (JStr s) = Inr (StringToNumber h s)"
| "to_number_prim h _ = Inl (TypeError ''Cannot convert object to primitive value'')"

fun to_string_prim :: "jsval \<Rightarrow> exn + string" where
  "to_string_prim JUndefined = Inr ''undefined''"
| "to_string_prim JNull = Inr ''null''"
| "to_string_prim (JBool b) = Inr (if b then ''true'' else ''false'')"
| "to_string_prim (JNumber n) = Inr (number_to_string n)"
| "to_string_prim (JStr s) = Inr s"
| "to_string_prim _ = Inl (TypeError ''Cannot convert object to primitive value'')"

fun is_object :: "jsval \<Rightarrow> bool" where
  "is_object (JArr xs) = True"
| "is_object (JObj kvs) = True"
| "is_object _ = False"

definition to_primitive :: "host \<Rightarrow> jsval \<Rightarrow> exn + jsval" where
  "to_primitive h v = (if is_object v then ToPrimitive h v else Inr v)"

definition to_number :: "host \<Rightarrow> jsval \<Rightarrow> exn + number" where
  "to_number h v =
     (case to_primitive h v of Inl e \<Rightarrow> Inl e | Inr p \<Rightarrow> to_number_prim h p)"

definition to_string :: "host \<Rightarrow> jsval \<Rightarrow> exn + string" where
  "to_string h v =
     (case to_primitive h v of Inl e \<Rightarrow> Inl e | Inr p \<Rightarrow> to_string_prim p)"

text \<open>\<^verbatim>\<open>new Date(v)\<close>, as its time value: a string is parsed, any other primitive is
  converted to a number and clipped to the range of dates.\<close>

definition time_clip :: "number \<Rightarrow> number" where
  "time_clip t =
     (case t of NaN \<Rightarrow> NaN
      | Num n \<Rightarrow> if abs n \<le> 8640000000000000 then Num n else NaN)"

definition new_Date :: "host \<Rightarrow> jsval \<Rightarrow> exn + number" where
  "new_Date h v =
     (case to_primitive h v of
        Inl e \<Rightarrow> Inl e
      | Inr (JStr s) \<Rightarrow> Inr (DateParse h s)
      | Inr p \<Rightarrow> (case to_number_prim h p of Inl e \<Rightarrow> Inl e | Inr t \<Rightarrow> Inr (time_clip t)))"

text \<open>\<^verbatim>\<open>String.prototype.trim\<close>: white space and line terminators, as far as \<open>char\<close>
  has them.\<close>

definition is_js_space :: "char \<Rightarrow> bool" where
  "is_js_space c = (of_char c \<in> {9, 10, 11, 12, 13, 32, 160 :: nat})"

definition js_trim :: "string \<Rightarrow> string" where
  "js_trim s = rev (dropWhile is_js_space (rev (dropWhile is_js_space s)))"

subsection \<open>The counter and what surrounds it\<close>

text \<open>
  The fields of an instance, with the types that the constructor's \<^verbatim>\<open>typeof\<close> test and
  its literals give them; the two numbers are taken to be integers. \<open>className\<close> is
  \<^verbatim>\<open>this.constructor.name\<close>.
\<close>

record counter =
  className :: string
  username :: string
  accessToken :: string
  userEmailAddresses :: jsval
  userNames :: jsval
  fromDate :: string
  untilDate :: string
  minCommits :: int
  itemsPerPage :: int
  reposEndpoint :: string
  reposParams :: jsobj
  repoUpdatedDateField :: string

text \<open>
  \<^verbatim>\<open>axios(options)\<close> settles with a response or with an error. What the network answers
  is not the program's: the client is a parameter that reads the request and the state
  of the outside world and gives the settlement and the next state.
\<close>

datatype axios_result = Resolved jsval | Rejected jsval

type_synonym 'w transport = "jsval \<Rightarrow> 'w \<Rightarrow> axios_result \<times> 'w"

type_synonym console = "jsval list list"

subsection \<open>Configuration\<close>

definition getDefaultOptions :: jsobj where
  "getDefaultOptions =
     [(''username'', JStr ''''),
      (''accessToken'', JStr ''''),
      (''userEmailAddresses'', JArr []),
      (''userNames'', JArr []),
      (''fromDate'', JStr ''''),
      (''untilDate'', JStr ''''),
      (''minCommits'', JNumber (Num 1))]"

text \<open>
  The object handed to the constructor: its own properties, the properties it inherits
  from prototypes of the caller's making (nearest first), and whether its prototype chain
  ends in \<^verbatim>\<open>Object.prototype\<close>, as that of an object literal does, or in \<open>null\<close>, as that of
  \<^verbatim>\<open>Object.create(null)\<close>. Reading a property looks at the own properties first and then at
  the inherited ones; the members of \<^verbatim>\<open>Object.prototype\<close> are functions, and the only one
  the class asks for is \<open>hasOwnProperty\<close>.
\<close>

datatype object =
  Object (own_properties: jsobj) (inherited_properties: jsobj) (has_Object_prototype: bool)

definition object_literal :: "jsobj \<Rightarrow> object" where
  "object_literal props = Object props [] True"

definition object_get :: "object \<Rightarrow> string \<Rightarrow> jsval" where
  "object_get obj k = obj_get (own_properties obj @ inherited_properties obj) k"

text \<open>
  \<^verbatim>\<open>obj.hasOwnProperty(k)\<close> is a method call on \<open>obj\<close>. A property of that name, own or
  inherited, hides the method of \<^verbatim>\<open>Object.prototype\<close>, and a value that is not a function
  cannot be called; an object whose chain ends in \<open>null\<close> has no such method at all. Only
  the method of \<^verbatim>\<open>Object.prototype\<close> answers, and it looks at the own properties.
\<close>

definition hasOwnProperty :: "object \<Rightarrow> string \<Rightarrow> exn + bool" where
  "hasOwnProperty obj k =
     (case map_of (own_properties obj @ inherited_properties obj) ''hasOwnProperty'' of
        Some f \<Rightarrow> Inl (TypeError ''hasOwnProperty is not a function'')
      | None \<Rightarrow>
          if has_Object_prototype obj then Inr (map_of (own_properties obj) k \<noteq> None)
          else Inl (TypeError ''hasOwnProperty is not a function''))"

definition getOptionValue :: "object \<Rightarrow> string \<Rightarrow> jsval \<Rightarrow> exn + jsval" where
  "getOptionValue options option defaultValue =
     (case hasOwnProperty options option of
        Inl e \<Rightarrow> Inl e
      | Inr own \<Rightarrow>
          if own \<and> typeof (object_get options option) = typeof defaultValue
          then Inr (object_get options option)
          else Inr defaultValue)"

text \<open>The \<^verbatim>\<open>for (const option in defaultOptions)\<close> loop of the constructor, over the
  properties still to visit; \<open>defaultOptions\<close> is an object literal and \<open>this\<close> is the
  object under construction.\<close>

fun assign_options :: "object \<Rightarrow> jsobj \<Rightarrow> jsobj \<Rightarrow> jsobj \<Rightarrow> exn + jsobj" where
  "assign_options options defaultOptions [] this = Inr this"
| "assign_options options defaultOptions ((option, d) # rest) this =
     (case hasOwnProperty (object_literal defaultOptions) option of
        Inl e \<Rightarrow> Inl e
      | Inr False \<Rightarrow> assign_options options defaultOptions rest this
      | Inr True \<Rightarrow>
          (case getOptionValue options option (obj_get defaultOptions option) of
             Inl e \<Rightarrow> Inl e
           | Inr v \<Rightarrow> assign_options options defaultOptions rest (obj_set option v this)))"

definition constructor :: "object \<Rightarrow> exn + jsobj" where
  "constructor options =
     (let defaultOptions = getDefaultOptions in
      case assign_options options defaultOptions defaultOptions [] of
        Inl e \<Rightarrow> Inl e
      | Inr this \<Rightarrow>
          Inr (obj_set ''repoUpdatedDateField'' (JStr '''')
              (obj_set ''reposParams'' (JObj [])
              (obj_set ''reposEndpoint'' (JStr '''')
              (obj_set ''itemsPerPage'' (JNumber (Num 100)) this)))))"

subsection \<open>The HTTP accessor\<close>

definition log :: "counter \<Rightarrow> jsval list \<Rightarrow> console \<Rightarrow> console" where
  "log this messages out = out @ [JStr (''   '' @ className this @ '' -'') # messages]"

text \<open>The value that a \<^verbatim>\<open>catch\<close> clause binds.\<close>

fun caught :: "exn \<Rightarrow> jsval" where
  "caught (Thrown v) = v"
| "caught (TypeError msg) = JObj [(''name'', JStr ''TypeError''), (''message'', JStr msg)]"

text \<open>\<^verbatim>\<open>error && error.response && error.response.data ? error.response.data : ""\<close>\<close>

definition errorString :: "jsval \<Rightarrow> exn + jsval" where
  "errorString error =
     (if \<not> truthy error then Inr (JStr '''')
      else (case get_prop error ''response'' of
        Inl e \<Rightarrow> Inl e
      | Inr response \<Rightarrow>
          if \<not> truthy response then Inr (JStr '''')
          else (case get_prop response ''data'' of
            Inl e \<Rightarrow> Inl e
          | Inr d \<Rightarrow> if truthy d then get_prop response ''data'' else Inr (JStr ''''))))"

definition request_options :: "counter \<Rightarrow> string \<Rightarrow> jsval \<Rightarrow> jsobj \<Rightarrow> jsval" where
  "request_options this endpoint params extraOptions =
     JObj (object_spread
       [(''method'', JStr ''GET''),
        (''url'', JStr endpoint),
        (''params'', params),
        (''headers'', JObj [(''Content-Type'', JStr ''application/json'')]),
        (''auth'', JObj [(''username'', JStr (username this)),
                         (''password'', JStr (accessToken this))])]
       extraOptions)"

text \<open>The body of the \<^verbatim>\<open>try\<close> block, once the client has settled.\<close>

definition try_response :: "axios_result \<Rightarrow> exn + jsval" where
  "try_response r =
     (case r of
        Rejected error \<Rightarrow> Inl (Thrown error)
      | Resolved response \<Rightarrow>
          (case get_prop response ''data'' of
             Inl e \<Rightarrow> Inl e
           | Inr d \<Rightarrow> Inr (js_or d (JBool False))))"

definition getFromAPI ::
  "'w transport \<Rightarrow> counter \<Rightarrow> string \<Rightarrow> jsval \<Rightarrow> jsobj \<Rightarrow> 'w \<times> console
     \<Rightarrow> (exn + jsval) \<times> 'w \<times> console" where
  "getFromAPI axios this endpoint params extraOptions st =
     (case st of (w, out) \<Rightarrow>
      (case axios (request_options this endpoint params extraOptions) w of (r, w') \<Rightarrow>
      (case try_response r of
        Inr v \<Rightarrow> (Inr v, w', out)
      | Inl error \<Rightarrow>
          (case errorString (caught error) of
             Inl e \<Rightarrow> (Inl e, w', out)
           | Inr s \<Rightarrow>
               (Inr (JBool False), w',
                log this [JStr (''Failed call to '' @ endpoint @ '' with error:''), s] out)))))"

subsection \<open>The paginated lister\<close>

text \<open>\<^verbatim>\<open>getUsersRepoCommitsCountAll\<close> of the base class; a counter for a platform
  overrides it, so the aggregation below takes the method as an argument.\<close>

definition getUsersRepoCommitsCountAll :: "jsval \<Rightarrow> int" where
  "getUsersRepoCommitsCountAll repo = 0"

text \<open>
  The block \<^verbatim>\<open>if (count && fromDate) { ... }\<close> of \<^verbatim>\<open>getRepos\<close>: whether it returns the
  page at once. \<open>fromDateObj\<close>, the parameter \<^verbatim>\<open>fromDate\<close>, is a Date, given by its time value, or absent.
\<close>

definition dateCutoff ::
  "host \<Rightarrow> counter \<Rightarrow> jsval \<Rightarrow> jsval \<Rightarrow> number option \<Rightarrow> exn + bool" where
  "dateCutoff h this repos count fromDateObj =
     (case fromDateObj of
        None \<Rightarrow> Inr False
      | Some d \<Rightarrow>
          if \<not> truthy count then Inr False
          else (case to_number h count of
            Inl e \<Rightarrow> Inl e
          | Inr n \<Rightarrow>
              (case js_index repos (num_sub n (Num 1)) of
                 Inl e \<Rightarrow> Inl e
               | Inr lastRepo \<Rightarrow>
                   (case get_prop lastRepo (repoUpdatedDateField this) of
                      Inl e \<Rightarrow> Inl e
                    | Inr updated \<Rightarrow>
                        (case new_Date h updated of
                           Inl e \<Rightarrow> Inl e
                         | Inr repoUpdatedDate \<Rightarrow> Inr (num_lt repoUpdatedDate d))))))"

text \<open>\<^verbatim>\<open>params.page++\<close>\<close>

definition page_increment :: "host \<Rightarrow> jsobj \<Rightarrow> exn + jsobj" where
  "page_increment h params =
     (case to_number h (obj_get params ''page'') of
        Inl e \<Rightarrow> Inl e
      | Inr n \<Rightarrow> Inr (obj_set ''page'' (JNumber (num_add n (Num 1))) params))"

text \<open>\<^verbatim>\<open>repos.concat(newRepos)\<close>: on an array an array argument is spread and any other
  value is appended as one element; on a string the argument is converted and appended;
  nothing else that the lister can hold here has a \<open>concat\<close> method.\<close>

fun js_concat :: "host \<Rightarrow> jsval \<Rightarrow> jsval \<Rightarrow> exn + jsval" where
  "js_concat h (JArr xs) newRepos =
     Inr (JArr (xs @ (case newRepos of JArr ys \<Rightarrow> ys | v \<Rightarrow> [v])))"
| "js_concat h (JStr s) newRepos =
     (case to_string h newRepos of Inl e \<Rightarrow> Inl e | Inr t \<Rightarrow> Inr (JStr (s @ t)))"
| "js_concat h _ newRepos = Inl (TypeError ''repos.concat is not a function'')"

text \<open>What \<^verbatim>\<open>getRepos\<close> does with the outcome of its recursive call.\<close>

definition append_next_page ::
  "host \<Rightarrow> jsval \<Rightarrow> (exn + jsval) \<times> 's \<Rightarrow> ((exn + jsval) \<times> 's) option" where
  "append_next_page h repos r =
     (case r of
        (Inl e, st) \<Rightarrow> Some (Inl e, st)
      | (Inr newRepos, st) \<Rightarrow> Some (js_concat h repos newRepos, st))"

text \<open>
  \<^verbatim>\<open>getRepos(endpoint, params, fromDate)\<close>. The state is the params object, the outside
  world and the console; the result is what the call returns or throws, with the state
  it leaves. The recursion ends only when the server sends a page that is not full, so
  the function is partial: \<open>None\<close> is a call that never returns.
\<close>

partial_function (option) getRepos ::
  "host \<Rightarrow> 'w transport \<Rightarrow> counter \<Rightarrow> string \<Rightarrow> number option
     \<Rightarrow> jsobj \<times> 'w \<times> console \<Rightarrow> ((exn + jsval) \<times> jsobj \<times> 'w \<times> console) option" where
  "getRepos h axios this endpoint fromDateObj st =
     (case st of (params, io) \<Rightarrow>
      (case getFromAPI axios this endpoint (JObj params) [] io of (r, io') \<Rightarrow>
       (case r of
         Inl e \<Rightarrow> Some (Inl e, params, io')
       | Inr repos \<Rightarrow>
           if \<not> truthy repos then Some (Inr (JArr []), params, io')
           else (case get_prop repos ''length'' of
             Inl e \<Rightarrow> Some (Inl e, params, io')
           | Inr count \<Rightarrow>
               (case dateCutoff h this repos count fromDateObj of
                  Inl e \<Rightarrow> Some (Inl e, params, io')
                | Inr cutoff \<Rightarrow>
                    if cutoff then Some (Inr repos, params, io')
                    else if count = JNumber (Num (itemsPerPage this)) then
                      (case page_increment h params of
                         Inl e \<Rightarrow> Some (Inl e, params, io')
                       | Inr params' \<Rightarrow>
                           Option.bind
                             (getRepos h axios this endpoint fromDateObj (params', io'))
                             (append_next_page h repos))
                    else Some (Inr repos, params, io'))))))"

text \<open>\<^verbatim>\<open>getAllRepos()\<close>. The params object is the instance's own \<^verbatim>\<open>this.reposParams\<close>,
  so what \<^verbatim>\<open>getRepos\<close> does to it stays in the instance. \<^verbatim>\<open>this.fromDate\<close> is a string
  and so never null.\<close>

definition getAllRepos ::
  "host \<Rightarrow> 'w transport \<Rightarrow> counter \<Rightarrow> 'w \<times> console
     \<Rightarrow> ((exn + jsval) \<times> counter \<times> 'w \<times> console) option" where
  "getAllRepos h axios this io =
     (let fromDateObj =
            (if js_trim (fromDate this) \<noteq> '''' then Some (DateParse h (fromDate this))
             else None)
      in map_option (\<lambda>(r, params', io'). (r, this\<lparr>reposParams := params'\<rparr>, io'))
           (getRepos h axios this (reposEndpoint this) fromDateObj (reposParams this, io)))"

subsection \<open>The aggregator\<close>

record counts =
  projects :: int
  commits :: int

text \<open>The \<^verbatim>\<open>for\<close> loop of \<^verbatim>\<open>get()\<close>, from index \<open>i\<close> with the two running totals; \<open>len\<close>
  is the number that \<^verbatim>\<open>repos.length\<close> compares as.\<close>

function get_loop ::
  "(jsval \<Rightarrow> int) \<Rightarrow> counter \<Rightarrow> jsval \<Rightarrow> number \<Rightarrow> nat \<Rightarrow> int \<Rightarrow> int \<Rightarrow> exn + counts" where
  "get_loop countAll this repos len i usersProjectsCount usersCommitsCount =
     (if num_lt (Num (int i)) len then
        (case js_index repos (Num (int i)) of
           Inl e \<Rightarrow> Inl e
         | Inr repo \<Rightarrow>
             (let repoCommitsCount = countAll repo in
              if repoCommitsCount > 0 then
                get_loop countAll this repos len (Suc i)
                  (if repoCommitsCount \<ge> minCommits this then usersProjectsCount + 1
                   else usersProjectsCount)
                  (usersCommitsCount + repoCommitsCount)
              else get_loop countAll this repos len (Suc i)
                     usersProjectsCount usersCommitsCount))
      else Inr \<lparr>projects = usersProjectsCount, commits = usersCommitsCount\<rparr>)"
  by pat_completeness auto
termination
  by (relation "measure (\<lambda>(countAll, this, repos, len, i, p, c).
        case len of NaN \<Rightarrow> 0 | Num n \<Rightarrow> nat (n - int i))")
     (auto split: number.splits elim: num_lt.elims)

declare get_loop.simps [simp del]

definition aggregate :: "host \<Rightarrow> (jsval \<Rightarrow> int) \<Rightarrow> counter \<Rightarrow> jsval \<Rightarrow> exn + counts" where
  "aggregate h countAll this repos =
     (case get_prop repos ''length'' of
        Inl e \<Rightarrow> Inl e
      | Inr l \<Rightarrow>
          (case to_number h l of
             Inl e \<Rightarrow> Inl e
           | Inr len \<Rightarrow> get_loop countAll this repos len 0 0 0))"

text \<open>\<^verbatim>\<open>get()\<close>\<close>

definition get ::
  "host \<Rightarrow> 'w transport \<Rightarrow> (jsval \<Rightarrow> int) \<Rightarrow> counter \<Rightarrow> 'w \<times> console
     \<Rightarrow> ((exn + counts) \<times> counter \<times> 'w \<times> console) option" where
  "get h axios countAll this io =
     Option.bind (getAllRepos h axios this io)
       (\<lambda>(r, this', io').
          case r of
            Inl e \<Rightarrow> Some (Inl e, this', io')
          | Inr repos \<Rightarrow> Some (aggregate h countAll this' repos, this', io'))"

subsection \<open>Collaborators for the examples\<close>

text \<open>A server that answers every request with the same body, one that answers every
  request with 404, and an instance as the base class constructs it.\<close>

definition respond :: "jsval \<Rightarrow> unit transport" where
  "respond body request w = (Resolved (JObj [(''status'', JNumber (Num 200)), (''data'', body)]), w)"

definition not_found :: "unit transport" where
  "not_found request w =
     (Rejected (JObj [(''message'', JStr ''Request failed with status code 404''),
                      (''response'', JObj [(''status'', JNumber (Num 404)),
                                           (''data'', JStr ''Not Found'')])]), w)"

definition base_counter :: counter where
  "base_counter =
     \<lparr>className = ''BaseCounter'', username = '''', accessToken = '''',
      userEmailAddresses = JArr [], userNames = JArr [], fromDate = '''', untilDate = '''',
      minCommits = 1, itemsPerPage = 100, reposEndpoint = '''', reposParams = [],
      repoUpdatedDateField = ''''\<rparr>"

text \<open>The value that the specification's sentence on successful responses gives for a
  body: the sentinel for a body that is empty or null, the body itself otherwise.\<close>

definition spec_success_value :: "jsval \<Rightarrow> jsval" where
  "spec_success_value body =
     (if body \<in> {JNull, JUndefined, JStr ''''} then JBool False else body)"

text \<open>An options object with a value of the right type, a value of another type, a
  null where an array is the default, and a key that is no option.\<close>

definition example_options :: object where
  "example_options =
     object_literal
       [(''username'', JStr ''jahidul''),
        (''minCommits'', JStr ''5''),
        (''userNames'', JNull),
        (''colour'', JStr ''red'')]"

text \<open>
  A host that parses three dates; a server that hands out a fixed sequence of bodies, one
  per request, and counts the requests; a server that answers by the \<open>page\<close> parameter of
  the request; repositories that carry their commit count, and the strategy that reads
  it; and instances as a platform's counter configures them.
\<close>

definition test_host :: host where
  "test_host =
     \<lparr>ToPrimitive = (\<lambda>v. Inr (JStr ''[object Object]'')),
      StringToNumber = (\<lambda>s. NaN),
      DateParse = (\<lambda>s. if s = ''2018-06-01T00:00:00Z'' then Num 1527811200000
                        else if s = ''2019-01-01T00:00:00Z'' then Num 1546300800000
                        else if s = ''2019-03-01T00:00:00Z'' then Num 1551398400000
                        else NaN)\<rparr>"

definition serve_pages :: "(jsval list \<times> int) transport" where
  "serve_pages request w =
     (case w of (pages, fetched) \<Rightarrow>
        (case pages of
           [] \<Rightarrow> (Rejected (JObj [(''message'', JStr ''Network Error'')]), [], fetched + 1)
         | body # rest \<Rightarrow>
             (Resolved (JObj [(''status'', JNumber (Num 200)), (''data'', body)]),
              rest, fetched + 1)))"

definition repo :: "string \<Rightarrow> string \<Rightarrow> int \<Rightarrow> jsval" where
  "repo name updated n =
     JObj [(''name'', JStr name), (''updated_at'', JStr updated), (''commits'', JNumber (Num n))]"

definition commits_of :: "jsval \<Rightarrow> int" where
  "commits_of r =
     (case r of
        JObj kvs \<Rightarrow> (case obj_get kvs ''commits'' of JNumber (Num n) \<Rightarrow> n | _ \<Rightarrow> 0)
      | _ \<Rightarrow> 0)"

definition example_counter :: counter where
  "example_counter =
     base_counter
       \<lparr>className := ''ExampleCounter'',
        reposEndpoint := ''https://api.example/user/repos'',
        reposParams := [(''page'', JNumber (Num 1)), (''sort'', JStr ''updated'')],
        repoUpdatedDateField := ''updated_at''\<rparr>"

definition page_a :: "jsval list" where
  "page_a = replicate 100 (repo ''a'' ''2019-03-01T00:00:00Z'' 1)"

definition page_b :: "jsval list" where
  "page_b = replicate 100 (repo ''b'' ''2019-03-01T00:00:00Z'' 1)"

definition page_c :: "jsval list" where
  "page_c = replicate 37 (repo ''c'' ''2019-03-01T00:00:00Z'' 1)"

definition small_pages :: counter where
  "small_pages = example_counter\<lparr>itemsPerPage := 2\<rparr>"

definition page_new_old :: "jsval list" where
  "page_new_old =
     [repo ''new'' ''2019-03-01T00:00:00Z'' 4, repo ''old'' ''2018-06-01T00:00:00Z'' 9]"

definition page_older :: "jsval list" where
  "page_older = [repo ''older'' ''2018-06-01T00:00:00Z'' 2]"

definition page_undated :: "jsval list" where
  "page_undated = [repo ''new'' ''2019-03-01T00:00:00Z'' 4, JObj [(''name'', JStr ''undated'')]]"

definition page_recent :: "jsval list" where
  "page_recent = [repo ''recent'' ''2019-03-01T00:00:00Z'' 1]"

definition page_null_date :: "jsval list" where
  "page_null_date =
     [repo ''new'' ''2019-03-01T00:00:00Z'' 4,
      JObj [(''name'', JStr ''nulldate''), (''updated_at'', JNull)]]"

definition page_null_item :: "jsval list" where
  "page_null_item = [repo ''new'' ''2019-03-01T00:00:00Z'' 4, JNull]"

definition paged_api :: "unit transport" where
  "paged_api request w =
     (let page = (case get_prop request ''params'' of
                    Inl e \<Rightarrow> JUndefined
                  | Inr params \<Rightarrow>
                      (case get_prop params ''page'' of Inl e \<Rightarrow> JUndefined | Inr p \<Rightarrow> p))
      in (Resolved (JObj [(''status'', JNumber (Num 200)),
                          (''data'', if page = JNumber (Num 1) then JArr page_a
                                     else if page = JNumber (Num 2) then JArr page_c
                                     else JArr [])]), w))"

definition three_repos :: "jsval list" where
  "three_repos =
     [repo ''x'' ''2019-03-01T00:00:00Z'' 0, repo ''y'' ''2019-03-01T00:00:00Z'' 5,
      repo ''z'' ''2019-03-01T00:00:00Z'' 2]"

definition two_idle_repos :: "jsval list" where
  "two_idle_repos = [repo ''x'' ''2019-03-01T00:00:00Z'' 0, repo ''y'' ''2019-03-01T00:00:00Z'' 0]"

definition threshold_three :: counter where
  "threshold_three = example_counter\<lparr>minCommits := 3\<rparr>"

section \<open>Properties\<close>

subsection \<open>The HTTP accessor\<close>

lemma get_prop_truthy: "truthy v \<Longrightarrow> \<exists>x. get_prop v k = Inr x"
  by (cases v) (auto split: option.splits)

lemma errorString_returns: "\<exists>s. errorString error = Inr s"
proof (cases "truthy error")
  case False
  then show ?thesis by (simp add: errorString_def)
next
  case True
  then obtain response where r: "get_prop error ''response'' = Inr response"
    using get_prop_truthy by blast
  show ?thesis
  proof (cases "truthy response")
    case False
    with True r show ?thesis by (simp add: errorString_def)
  next
    case t: True
    then obtain d where d: "get_prop response ''data'' = Inr d"
      using get_prop_truthy by blast
    with True r t show ?thesis by (simp add: errorString_def)
  qed
qed

text \<open>
  C4. \<^verbatim>\<open>getFromAPI\<close> never throws: whatever the endpoint, the params, the extra options
  and the settlement of the client, it returns a value. When the client rejects, the
  error is caught, one line is written to the console (the class prefix, the "Failed
  call" message and the payload \<^verbatim>\<open>error.response.data\<close> or the empty string), and the
  value returned is \<open>false\<close>.
\<close>

theorem getFromAPI_never_throws:
  "(\<exists>v w' out'. getFromAPI axios this endpoint params extraOptions (w, out) = (Inr v, w', out')) \<and>
   (\<forall>error w'. axios (request_options this endpoint params extraOptions) w = (Rejected error, w') \<longrightarrow>
      (\<exists>s. errorString error = Inr s \<and>
           getFromAPI axios this endpoint params extraOptions (w, out) =
             (Inr (JBool False), w',
              out @ [[JStr (''   '' @ className this @ '' -''),
                      JStr (''Failed call to '' @ endpoint @ '' with error:''), s]])))"
proof (intro conjI allI impI)
  obtain r w' where a: "axios (request_options this endpoint params extraOptions) w = (r, w')"
    by (cases "axios (request_options this endpoint params extraOptions) w")
  show "\<exists>v w' out'. getFromAPI axios this endpoint params extraOptions (w, out) = (Inr v, w', out')"
  proof (cases "try_response r")
    case (Inr v)
    with a show ?thesis by (simp add: getFromAPI_def)
  next
    case (Inl error)
    obtain s where s: "errorString (caught error) = Inr s"
      using errorString_returns by blast
    with a Inl show ?thesis by (simp add: getFromAPI_def)
  qed
next
  fix error w'
  assume a: "axios (request_options this endpoint params extraOptions) w = (Rejected error, w')"
  have t: "try_response (Rejected error) = Inl (Thrown error)"
    by (simp add: try_response_def)
  obtain s where s: "errorString error = Inr s"
    using errorString_returns by blast
  have "getFromAPI axios this endpoint params extraOptions (w, out) =
             (Inr (JBool False), w',
              out @ [[JStr (''   '' @ className this @ '' -''),
                      JStr (''Failed call to '' @ endpoint @ '' with error:''), s]])"
    using a t s by (simp add: getFromAPI_def log_def)
  with s show "\<exists>s. errorString error = Inr s \<and>
           getFromAPI axios this endpoint params extraOptions (w, out) =
             (Inr (JBool False), w',
              out @ [[JStr (''   '' @ className this @ '' -''),
                      JStr (''Failed call to '' @ endpoint @ '' with error:''), s]])"
    by blast
qed

theorem getFromAPI_never_throws_witness:
  "not_found (request_options base_counter ''https://api.example/repos'' (JObj []) []) () =
     (Rejected (JObj [(''message'', JStr ''Request failed with status code 404''),
                      (''response'', JObj [(''status'', JNumber (Num 404)),
                                           (''data'', JStr ''Not Found'')])]), ()) \<and>
   getFromAPI not_found base_counter ''https://api.example/repos'' (JObj []) [] ((), []) =
      (Inr (JBool False), (),
       [[JStr ''   BaseCounter -'',
         JStr ''Failed call to https://api.example/repos with error:'', JStr ''Not Found'']])"
proof -
  let ?error = "JObj [(''message'', JStr ''Request failed with status code 404''),
                      (''response'', JObj [(''status'', JNumber (Num 404)),
                                           (''data'', JStr ''Not Found'')])]"
  have r: "not_found (request_options base_counter ''https://api.example/repos'' (JObj []) []) () =
     (Rejected ?error, ())"
    by (simp add: not_found_def)
  have c: "className base_counter = ''BaseCounter''"
    by (simp add: base_counter_def)
  have e: "errorString ?error = Inr (JStr ''Not Found'')"
    by (simp add: errorString_def obj_get_def)
  from getFromAPI_never_throws [of not_found base_counter "''https://api.example/repos''"
         "JObj []" "[]" "()" "[]", THEN conjunct2, rule_format, OF r]
  have "getFromAPI not_found base_counter ''https://api.example/repos'' (JObj []) [] ((), []) =
      (Inr (JBool False), (),
       [] @ [[JStr (''   '' @ className base_counter @ '' -''),
         JStr (''Failed call to '' @ ''https://api.example/repos'' @ '' with error:''),
         JStr ''Not Found'']])"
    unfolding e by blast
  then have "getFromAPI not_found base_counter ''https://api.example/repos'' (JObj []) [] ((), []) =
      (Inr (JBool False), (),
       [[JStr ''   BaseCounter -'',
         JStr ''Failed call to https://api.example/repos with error:'', JStr ''Not Found'']])"
    unfolding c by simp
  with r show ?thesis by blast
qed

lemma truthy_iff:
  "truthy v \<longleftrightarrow> v \<notin> {JUndefined, JNull, JBool False, JNumber (Num 0), JNumber NaN, JStr ''''}"
proof (cases v)
  case (JNumber n)
  then show ?thesis by (cases n) auto
qed auto

text \<open>
  C8, as the code has it. On a successful response \<^verbatim>\<open>getFromAPI\<close> returns
  \<^verbatim>\<open>response.data || false\<close>: the body when the body is truthy, and \<open>false\<close> when the body
  is one of the falsy values \<open>undefined\<close>, \<open>null\<close>, \<open>false\<close>, \<open>0\<close>, \<open>NaN\<close> and the empty
  string. Nothing is logged. An empty array or an empty object is truthy and is returned
  as it is.
\<close>

theorem getFromAPI_success:
  assumes "axios (request_options this endpoint params extraOptions) w = (Resolved response, w')"
    and "get_prop response ''data'' = Inr body"
  shows "getFromAPI axios this endpoint params extraOptions (w, out) =
           (Inr (if body \<in> {JUndefined, JNull, JBool False, JNumber (Num 0), JNumber NaN, JStr ''''}
                 then JBool False else body), w', out)"
proof -
  have "try_response (Resolved response) = Inr (if truthy body then body else JBool False)"
    using assms(2) by (simp add: try_response_def js_or_def)
  then show ?thesis
    using assms(1) by (simp add: getFromAPI_def truthy_iff)
qed

theorem getFromAPI_success_witness:
  "respond (JArr []) (request_options base_counter ''https://api.example/repos'' (JObj []) []) () =
     (Resolved (JObj [(''status'', JNumber (Num 200)), (''data'', JArr [])]), ()) \<and>
   get_prop (JObj [(''status'', JNumber (Num 200)), (''data'', JArr [])]) ''data'' = Inr (JArr []) \<and>
   getFromAPI (respond (JArr [])) base_counter ''https://api.example/repos'' (JObj []) [] ((), []) =
     (Inr (JArr []), (), [])"
proof -
  have r: "respond (JArr []) (request_options base_counter ''https://api.example/repos'' (JObj []) []) () =
     (Resolved (JObj [(''status'', JNumber (Num 200)), (''data'', JArr [])]), ())"
    by (simp add: respond_def)
  have d: "get_prop (JObj [(''status'', JNumber (Num 200)), (''data'', JArr [])]) ''data'' = Inr (JArr [])"
    by (simp add: obj_get_def)
  from getFromAPI_success [of "respond (JArr [])" base_counter "''https://api.example/repos''"
         "JObj []" "[]" "()" _ "()" "JArr []" "[]", OF r d]
  have "getFromAPI (respond (JArr [])) base_counter ''https://api.example/repos'' (JObj []) [] ((), []) =
     (Inr (JArr []), (), [])"
    by simp
  with r d show ?thesis by blast
qed

text \<open>
  C8, as the specification words it (the body is returned unless it is empty or null),
  fails on a successful response whose body is the number \<open>0\<close>: the body is neither empty
  nor null, and \<open>false\<close> is returned in its place.
\<close>

theorem getFromAPI_zero_body_counterexample:
  "fst (getFromAPI (respond (JNumber (Num 0))) base_counter ''https://api.example/repos''
          (JObj []) [] ((), []))
     \<noteq> Inr (spec_success_value (JNumber (Num 0)))"
  by (simp add: getFromAPI_def respond_def try_response_def js_or_def obj_get_def
        spec_success_value_def)

subsection \<open>The configuration resolver\<close>

lemma map_of_obj_set: "map_of (obj_set k v obj) k' = (if k' = k then Some v else map_of obj k')"
  by (induction obj) auto

lemma object_get_own:
  "map_of (own_properties obj) k \<noteq> None \<Longrightarrow> object_get obj k = obj_get (own_properties obj) k"
  by (auto simp: object_get_def obj_get_def)

lemma hasOwnProperty_plain:
  "has_Object_prototype obj \<Longrightarrow>
   map_of (own_properties obj @ inherited_properties obj) ''hasOwnProperty'' = None \<Longrightarrow>
   hasOwnProperty obj k = Inr (map_of (own_properties obj) k \<noteq> None)"
  by (simp add: hasOwnProperty_def del: map_of_append)

lemma getOptionValue_plain:
  assumes "has_Object_prototype options"
    and "map_of (own_properties options @ inherited_properties options) ''hasOwnProperty'' = None"
  shows "getOptionValue options option d =
     Inr (if map_of (own_properties options) option \<noteq> None \<and>
             typeof (obj_get (own_properties options) option) = typeof d
          then obj_get (own_properties options) option else d)"
proof (cases "map_of (own_properties options) option = None")
  case True
  then show ?thesis
    by (simp add: getOptionValue_def hasOwnProperty_plain [OF assms])
next
  case False
  then show ?thesis
    by (simp add: getOptionValue_def hasOwnProperty_plain [OF assms] object_get_own)
qed

lemma assign_options_plain:
  assumes "has_Object_prototype options"
    and "map_of (own_properties options @ inherited_properties options) ''hasOwnProperty'' = None"
    and "map_of defaultOptions ''hasOwnProperty'' = None"
    and "distinct (map fst defaultOptions)"
    and "set rest \<subseteq> set defaultOptions"
    and "distinct (map fst rest)"
  shows "\<exists>this'. assign_options options defaultOptions rest this = Inr this' \<and>
           (\<forall>k. map_of this' k =
              (case map_of rest k of
                 None \<Rightarrow> map_of this k
               | Some d \<Rightarrow>
                   Some (if map_of (own_properties options) k \<noteq> None \<and>
                            typeof (obj_get (own_properties options) k) = typeof d
                         then obj_get (own_properties options) k else d)))"
  using assms(5,6)
proof (induction rest arbitrary: this)
  case Nil
  then show ?case by simp
next
  case (Cons kd rest)
  obtain option d where kd: "kd = (option, d)" by (cases kd)
  define v where "v = (if map_of (own_properties options) option \<noteq> None \<and>
                          typeof (obj_get (own_properties options) option) = typeof d
                       then obj_get (own_properties options) option else d)"
  from Cons.prems kd have mem: "(option, d) \<in> set defaultOptions" by simp
  with assms(4) have look: "map_of defaultOptions option = Some d" by simp
  then have own: "hasOwnProperty (object_literal defaultOptions) option = Inr True"
    using assms(3) by (simp add: hasOwnProperty_def object_literal_def)
  have dv: "obj_get defaultOptions option = d"
    using look by (simp add: obj_get_def)
  have step: "assign_options options defaultOptions (kd # rest) this =
                assign_options options defaultOptions rest (obj_set option v this)"
    using own dv getOptionValue_plain [OF assms(1,2), of option d] by (simp add: kd v_def)
  from Cons.prems kd have fresh: "map_of rest option = None"
    by (simp add: map_of_eq_None_iff)
  from Cons.prems have "set rest \<subseteq> set defaultOptions" "distinct (map fst rest)" by simp_all
  from Cons.IH [OF this, of "obj_set option v this"]
  obtain this' where r: "assign_options options defaultOptions rest (obj_set option v this) = Inr this'"
    and m: "\<And>k. map_of this' k =
              (case map_of rest k of
                 None \<Rightarrow> map_of (obj_set option v this) k
               | Some d \<Rightarrow>
                   Some (if map_of (own_properties options) k \<noteq> None \<and>
                            typeof (obj_get (own_properties options) k) = typeof d
                         then obj_get (own_properties options) k else d))"
    by blast
  have "\<forall>k. map_of this' k =
              (case map_of (kd # rest) k of
                 None \<Rightarrow> map_of this k
               | Some d \<Rightarrow>
                   Some (if map_of (own_properties options) k \<noteq> None \<and>
                            typeof (obj_get (own_properties options) k) = typeof d
                         then obj_get (own_properties options) k else d))"
  proof
    fix k
    show "map_of this' k =
              (case map_of (kd # rest) k of
                 None \<Rightarrow> map_of this k
               | Some d \<Rightarrow>
                   Some (if map_of (own_properties options) k \<noteq> None \<and>
                            typeof (obj_get (own_properties options) k) = typeof d
                         then obj_get (own_properties options) k else d))"
    proof (cases "k = option")
      case True
      then show ?thesis using m [of k] fresh by (simp add: kd map_of_obj_set v_def)
    next
      case False
      then show ?thesis using m [of k] by (simp add: kd map_of_obj_set split: option.splits)
    qed
  qed
  with step r show ?case by simp
qed

lemma defaults_plain:
  "map_of getDefaultOptions ''hasOwnProperty'' = None" "distinct (map fst getDefaultOptions)"
  by (simp_all add: getDefaultOptions_def)

lemma defaults_not_settings:
  assumes "(k, d) \<in> set getDefaultOptions"
  shows "k \<noteq> ''itemsPerPage''" "k \<noteq> ''reposEndpoint''" "k \<noteq> ''reposParams''"
    "k \<noteq> ''repoUpdatedDateField''"
  using assms by (auto simp: getDefaultOptions_def)

text \<open>
  The merge that the constructor is written to make. For an options object whose chain
  ends in \<^verbatim>\<open>Object.prototype\<close> and that has no property named \<open>hasOwnProperty\<close>, own or
  inherited, the constructor raises nothing and the instance has every key of the
  defaults; under each key it holds the user's value when the options object has that
  key as an own property and the \<^verbatim>\<open>typeof\<close> of the user's value equals the \<^verbatim>\<open>typeof\<close> of
  the default, and the default otherwise.
\<close>

lemma constructor_resolves:
  assumes "has_Object_prototype options"
    and "map_of (own_properties options @ inherited_properties options) ''hasOwnProperty'' = None"
  shows "\<exists>this. constructor options = Inr this \<and>
           (\<forall>(k, d) \<in> set getDefaultOptions.
              map_of this k =
                Some (if map_of (own_properties options) k \<noteq> None \<and>
                         typeof (obj_get (own_properties options) k) = typeof d
                      then obj_get (own_properties options) k else d))"
proof -
  from assign_options_plain [OF assms defaults_plain subset_refl defaults_plain(2), of "[]"]
  obtain this' where r: "assign_options options getDefaultOptions getDefaultOptions [] = Inr this'"
    and m: "\<And>k. map_of this' k =
              (case map_of getDefaultOptions k of
                 None \<Rightarrow> map_of [] k
               | Some d \<Rightarrow>
                   Some (if map_of (own_properties options) k \<noteq> None \<and>
                            typeof (obj_get (own_properties options) k) = typeof d
                         then obj_get (own_properties options) k else d))"
    by blast
  let ?obj = "obj_set ''repoUpdatedDateField'' (JStr '''')
              (obj_set ''reposParams'' (JObj [])
              (obj_set ''reposEndpoint'' (JStr '''')
              (obj_set ''itemsPerPage'' (JNumber (Num 100)) this')))"
  have c: "constructor options = Inr ?obj"
    using r by (simp add: constructor_def)
  have "map_of ?obj k =
          Some (if map_of (own_properties options) k \<noteq> None \<and>
                   typeof (obj_get (own_properties options) k) = typeof d
                then obj_get (own_properties options) k else d)"
    if kd: "(k, d) \<in> set getDefaultOptions" for k d
  proof -
    from kd defaults_plain(2) have "map_of getDefaultOptions k = Some d" by simp
    with m [of k] have "map_of this' k =
          Some (if map_of (own_properties options) k \<noteq> None \<and>
                   typeof (obj_get (own_properties options) k) = typeof d
                then obj_get (own_properties options) k else d)"
      by simp
    with defaults_not_settings [OF kd] show ?thesis
      by (simp add: map_of_obj_set)
  qed
  with c show ?thesis by blast
qed

lemma constructor_resolves_example:
  "\<exists>this. constructor example_options = Inr this \<and>
      map_of this ''username'' = Some (JStr ''jahidul'') \<and>
      map_of this ''minCommits'' = Some (JNumber (Num 1)) \<and>
      map_of this ''userNames'' = Some JNull"
proof -
  have plain: "has_Object_prototype example_options"
    "map_of (own_properties example_options @ inherited_properties example_options)
       ''hasOwnProperty'' = None"
    by (simp_all add: example_options_def object_literal_def)
  have mem: "(''username'', JStr '''') \<in> set getDefaultOptions"
    "(''minCommits'', JNumber (Num 1)) \<in> set getDefaultOptions"
    "(''userNames'', JArr []) \<in> set getDefaultOptions"
    by (simp_all add: getDefaultOptions_def)
  from constructor_resolves [OF plain]
  obtain this where c: "constructor example_options = Inr this"
    and r: "\<forall>(k, d) \<in> set getDefaultOptions.
              map_of this k =
                Some (if map_of (own_properties example_options) k \<noteq> None \<and>
                         typeof (obj_get (own_properties example_options) k) = typeof d
                      then obj_get (own_properties example_options) k else d)"
    by blast
  have "map_of this ''username'' = Some (JStr ''jahidul'')"
    using bspec [OF r mem(1)] by (simp add: example_options_def object_literal_def obj_get_def)
  moreover have "map_of this ''minCommits'' = Some (JNumber (Num 1))"
    using bspec [OF r mem(2)] by (simp add: example_options_def object_literal_def obj_get_def)
  moreover have "map_of this ''userNames'' = Some JNull"
    using bspec [OF r mem(3)] by (simp add: example_options_def object_literal_def obj_get_def)
  ultimately show ?thesis using c by blast
qed

text \<open>
  C5 fails on the code. The claim is that no options object makes the constructor raise.
  \<^verbatim>\<open>getOptionValue\<close> asks the user's object itself for the method,
  \<^verbatim>\<open>options.hasOwnProperty(option)\<close>, so the options object \<^verbatim>\<open>{hasOwnProperty: 1}\<close>, whose
  own property hides the method with a number, makes the constructor raise a TypeError,
  and so does an options object without a prototype, \<^verbatim>\<open>Object.create(null)\<close>, which has no
  such method.
\<close>

theorem constructor_hasOwnProperty_raises:
  "constructor (object_literal [(''hasOwnProperty'', JNumber (Num 1))]) =
     Inl (TypeError ''hasOwnProperty is not a function'') \<and>
   constructor (Object [] [] False) = Inl (TypeError ''hasOwnProperty is not a function'')"
  by (simp add: constructor_def getDefaultOptions_def hasOwnProperty_def getOptionValue_def
        object_literal_def)

subsection \<open>Facts about the lister and the aggregator\<close>

lemma to_number_number: "to_number h (JNumber n) = Inr n"
  by (simp add: to_number_def to_primitive_def)

lemma new_Date_undefined: "new_Date h JUndefined = Inr NaN"
  by (simp add: new_Date_def to_primitive_def time_clip_def)

lemma new_Date_string: "new_Date h (JStr s) = Inr (DateParse h s)"
  by (simp add: new_Date_def to_primitive_def)

lemma new_Date_invalid_iff:
  "\<not> is_object v \<Longrightarrow>
   new_Date h v = Inr NaN \<longleftrightarrow>
     v = JUndefined \<or> (\<exists>n. v = JNumber n \<and> time_clip n = NaN) \<or>
     (\<exists>s. v = JStr s \<and> DateParse h s = NaN)"
  by (cases v) (auto simp: new_Date_def to_primitive_def time_clip_def)

lemma js_index_last:
  "xs \<noteq> [] \<Longrightarrow> js_index (JArr xs) (Num (int (length xs) - 1)) = Inr (last xs)"
proof -
  assume n: "xs \<noteq> []"
  then have "nat (int (length xs) - 1) = length xs - 1" by simp
  with n show ?thesis by (simp add: last_conv_nth del: of_nat_diff)
qed

lemma dateCutoff_absent: "dateCutoff h this repos count None = Inr False"
  by (simp add: dateCutoff_def)

lemma dateCutoff_array:
  assumes "xs \<noteq> []"
  shows "dateCutoff h this (JArr xs) (JNumber (Num (int (length xs)))) (Some d) =
           (case get_prop (last xs) (repoUpdatedDateField this) of
              Inl e \<Rightarrow> Inl e
            | Inr updated \<Rightarrow>
                (case new_Date h updated of
                   Inl e \<Rightarrow> Inl e
                 | Inr repoUpdatedDate \<Rightarrow> Inr (num_lt repoUpdatedDate d)))"
proof -
  have "js_index (JArr xs) (num_sub (Num (int (length xs))) (Num 1)) = Inr (last xs)"
    using js_index_last [OF assms] by simp
  then show ?thesis
    using assms by (simp add: dateCutoff_def to_number_number del: js_index.simps num_sub.simps)
qed

lemma getRepos_sentinel:
  assumes "getFromAPI axios this endpoint (JObj params) [] io = (Inr v, io')"
    and "\<not> truthy v"
  shows "getRepos h axios this endpoint fromDateObj (params, io) = Some (Inr (JArr []), params, io')"
  by (subst getRepos.simps) (simp add: assms)

lemma getRepos_array:
  assumes "getFromAPI axios this endpoint (JObj params) [] io = (Inr (JArr xs), io')"
  shows "getRepos h axios this endpoint fromDateObj (params, io) =
           (case dateCutoff h this (JArr xs) (JNumber (Num (int (length xs)))) fromDateObj of
              Inl e \<Rightarrow> Some (Inl e, params, io')
            | Inr cutoff \<Rightarrow>
                if cutoff then Some (Inr (JArr xs), params, io')
                else if int (length xs) = itemsPerPage this then
                  (case page_increment h params of
                     Inl e \<Rightarrow> Some (Inl e, params, io')
                   | Inr params' \<Rightarrow>
                       Option.bind
                         (getRepos h axios this endpoint fromDateObj (params', io'))
                         (append_next_page h (JArr xs)))
                else Some (Inr (JArr xs), params, io'))"
  by (subst getRepos.simps) (simp add: assms)

lemma page_increment_number:
  "obj_get params ''page'' = JNumber n \<Longrightarrow>
   page_increment h params = Inr (obj_set ''page'' (JNumber (num_add n (Num 1))) params)"
  by (simp add: page_increment_def to_number_number)

lemma append_next_page_array:
  "append_next_page h (JArr xs) (Inr (JArr ys), st) = Some (Inr (JArr (xs @ ys)), st)"
  by (simp add: append_next_page_def)

lemma page_increment_frame:
  assumes "page_increment h params = Inr params'"
  shows "k \<noteq> ''page'' \<Longrightarrow> map_of params' k = map_of params k"
    and "\<exists>n. map_of params' ''page'' = Some (JNumber n)"
    and "obj_get params ''page'' = JNumber (Num n) \<Longrightarrow>
         obj_get params' ''page'' = JNumber (Num (n + 1))"
  using assms
  by (auto simp: page_increment_def map_of_obj_set to_number_number obj_get_def
      split: sum.splits)

lemma append_next_page_state: "append_next_page h repos z = Some y \<Longrightarrow> snd y = snd z"
  by (cases z) (auto simp: append_next_page_def split: sum.splits)

lemma getRepos_frame:
  assumes "getRepos h axios this endpoint fromDateObj st = Some y"
  shows "(\<forall>k. k \<noteq> ''page'' \<longrightarrow> map_of (fst (snd y)) k = map_of (fst st) k) \<and>
         (fst (snd y) = fst st \<or> (\<exists>n. map_of (fst (snd y)) ''page'' = Some (JNumber n))) \<and>
         (\<forall>n. obj_get (fst st) ''page'' = JNumber (Num n) \<longrightarrow>
              (\<exists>m\<ge>n. obj_get (fst (snd y)) ''page'' = JNumber (Num m)))"
proof (rule getRepos.raw_induct
    [where P = "\<lambda>h axios this endpoint fromDateObj st y.
       (\<forall>k. k \<noteq> ''page'' \<longrightarrow> map_of (fst (snd y)) k = map_of (fst st) k) \<and>
       (fst (snd y) = fst st \<or> (\<exists>n. map_of (fst (snd y)) ''page'' = Some (JNumber n))) \<and>
       (\<forall>n. obj_get (fst st) ''page'' = JNumber (Num n) \<longrightarrow>
            (\<exists>m\<ge>n. obj_get (fst (snd y)) ''page'' = JNumber (Num m)))",
     OF _ assms], goal_cases)
  case (1 getRepos h axios this endpoint fromDateObj st y)
  note IH = 1(1) and body = 1(2)
  obtain params io where st: "st = (params, io)" by (cases st)
  obtain r io' where f: "getFromAPI axios this endpoint (JObj params) [] io = (r, io')"
    by (cases "getFromAPI axios this endpoint (JObj params) [] io")
  show ?case
  proof (cases "fst (snd y) = params")
    case True
    then show ?thesis by (auto simp: st)
  next
    case False
    with body st f obtain repos params' z
      where p: "page_increment h params = Inr params'"
        and rec: "getRepos h axios this endpoint fromDateObj (params', io') = Some z"
        and app: "append_next_page h repos z = Some y"
      by (auto split: sum.splits if_splits simp: bind_eq_Some_conv)
    from IH [OF rec] append_next_page_state [OF app]
    have a: "\<forall>k. k \<noteq> ''page'' \<longrightarrow> map_of (fst (snd y)) k = map_of params' k"
      and b: "fst (snd y) = params' \<or> (\<exists>n. map_of (fst (snd y)) ''page'' = Some (JNumber n))"
      and c: "\<forall>n. obj_get params' ''page'' = JNumber (Num n) \<longrightarrow>
                (\<exists>m\<ge>n. obj_get (fst (snd y)) ''page'' = JNumber (Num m))"
      by simp_all
    from a page_increment_frame(1) [OF p]
    have "\<forall>k. k \<noteq> ''page'' \<longrightarrow> map_of (fst (snd y)) k = map_of params k" by simp
    moreover from b page_increment_frame(2) [OF p]
    have "\<exists>n. map_of (fst (snd y)) ''page'' = Some (JNumber n)" by auto
    moreover have "\<exists>m\<ge>n. obj_get (fst (snd y)) ''page'' = JNumber (Num m)"
      if n: "obj_get params ''page'' = JNumber (Num n)" for n
    proof -
      from c page_increment_frame(3) [OF p n]
      obtain m where "m \<ge> n + 1" "obj_get (fst (snd y)) ''page'' = JNumber (Num m)"
        by blast
      then show ?thesis by (intro exI [of _ m]) simp
    qed
    ultimately show ?thesis by (simp add: st)
  qed
qed

lemma get_loop_array:
  "i \<le> length rs \<Longrightarrow>
   get_loop countAll this (JArr rs) (Num (int (length rs))) i p c =
     Inr \<lparr>projects =
            p + int (length (filter (\<lambda>r. 0 < countAll r \<and> minCommits this \<le> countAll r)
                              (drop i rs))),
          commits = c + sum_list (filter (\<lambda>n. 0 < n) (map countAll (drop i rs)))\<rparr>"
proof (induction "length rs - i" arbitrary: i p c)
  case 0
  then show ?case by (simp add: get_loop.simps)
next
  case (Suc m)
  then have lt: "i < length rs" and m: "m = length rs - Suc i" and le: "Suc i \<le> length rs"
    by simp_all
  have d: "drop i rs = rs ! i # drop (Suc i) rs"
    using lt by (simp add: Cons_nth_drop_Suc)
  show ?case
    using lt by (subst get_loop.simps) (simp add: Suc.hyps(1) [OF m le] d Let_def)
qed

lemma aggregate_array:
  "aggregate h countAll this (JArr rs) =
     Inr \<lparr>projects = int (length (filter (\<lambda>r. 0 < countAll r \<and> minCommits this \<le> countAll r) rs)),
          commits = sum_list (filter (\<lambda>n. 0 < n) (map countAll rs))\<rparr>"
  using get_loop_array [of 0 rs countAll this 0 0]
  by (simp add: aggregate_def to_number_number)

lemma getAllRepos_keeps:
  assumes "getAllRepos h axios this io = Some (r, this', io')"
  shows "\<exists>params'. this' = this\<lparr>reposParams := params'\<rparr>"
  using assms by (auto simp: getAllRepos_def Let_def split: if_splits)

lemma get_of_array:
  assumes "getAllRepos h axios this io = Some (Inr (JArr repos), this', io')"
  shows "get h axios countAll this io =
           Some (Inr \<lparr>projects =
                        int (length (filter (\<lambda>r. 0 < countAll r \<and> minCommits this \<le> countAll r)
                                       repos)),
                      commits = sum_list (filter (\<lambda>n. 0 < n) (map countAll repos))\<rparr>,
                 this', io')"
proof -
  from getAllRepos_keeps [OF assms] have "minCommits this' = minCommits this" by auto
  then show ?thesis
    by (simp add: get_def assms aggregate_array)
qed

lemma get_Some:
  assumes "get h axios countAll this io = Some (r', this', io'')"
  shows "\<exists>x. getAllRepos h axios this io = Some (x, this', io'')"
proof (cases "getAllRepos h axios this io")
  case None
  with assms show ?thesis by (simp add: get_def)
next
  case (Some z)
  obtain x t i where z: "z = (x, t, i)" by (cases z)
  with Some assms show ?thesis by (cases x) (simp_all add: get_def)
qed

lemma getAllRepos_no_date:
  "js_trim (fromDate this) = '''' \<Longrightarrow>
   getRepos h axios this (reposEndpoint this) None (reposParams this, io) = Some (r, params', io') \<Longrightarrow>
   getAllRepos h axios this io = Some (r, this\<lparr>reposParams := params'\<rparr>, io')"
  by (simp add: getAllRepos_def)

lemma js_trim_empty: "js_trim '''' = ''''"
  by (simp add: js_trim_def)

lemma getAllRepos_one_page:
  assumes "js_trim (fromDate this) = ''''"
    and "getFromAPI axios this (reposEndpoint this) (JObj (reposParams this)) [] io =
           (Inr (JArr xs), io')"
    and "int (length xs) \<noteq> itemsPerPage this"
  shows "getAllRepos h axios this io = Some (Inr (JArr xs), this, io')"
proof -
  have "getRepos h axios this (reposEndpoint this) None (reposParams this, io) =
          Some (Inr (JArr xs), reposParams this, io')"
    using assms(3) by (simp add: getRepos_array [OF assms(2)] dateCutoff_absent)
  from getAllRepos_no_date [OF assms(1) this] show ?thesis by simp
qed

subsection \<open>Facts about the collaborators\<close>

lemma getFromAPI_serve_pages:
  "truthy body \<Longrightarrow>
   getFromAPI serve_pages this endpoint params [] ((body # rest, fetched), out) =
     (Inr body, (rest, fetched + 1), out)"
  by (simp add: getFromAPI_def serve_pages_def try_response_def obj_get_def js_or_def)

lemma example_counter_fields:
  "itemsPerPage example_counter = 100"
  "reposEndpoint example_counter = ''https://api.example/user/repos''"
  "reposParams example_counter = [(''page'', JNumber (Num 1)), (''sort'', JStr ''updated'')]"
  "repoUpdatedDateField example_counter = ''updated_at''"
  "fromDate example_counter = ''''"
  "minCommits example_counter = 1"
  by (simp_all add: example_counter_def base_counter_def)

lemma length_page_a: "length page_a = 100"
  by (simp add: page_a_def)

lemma length_page_b: "length page_b = 100"
  by (simp add: page_b_def)

lemma length_page_c: "length page_c = 37"
  by (simp add: page_c_def)

lemma small_pages_fields:
  "itemsPerPage small_pages = 2"
  "reposEndpoint small_pages = ''https://api.example/user/repos''"
  "reposParams small_pages = [(''page'', JNumber (Num 1)), (''sort'', JStr ''updated'')]"
  "repoUpdatedDateField small_pages = ''updated_at''"
  "fromDate small_pages = ''''"
  "minCommits small_pages = 1"
  by (simp_all add: small_pages_def example_counter_def base_counter_def)

lemma length_page_new_old: "length page_new_old = 2"
  by (simp add: page_new_old_def)

lemma length_page_older: "length page_older = 1"
  by (simp add: page_older_def)

lemma length_page_undated: "length page_undated = 2"
  by (simp add: page_undated_def)

lemma length_page_recent: "length page_recent = 1"
  by (simp add: page_recent_def)

lemma test_dates:
  "DateParse test_host ''2018-06-01T00:00:00Z'' = Num 1527811200000"
  "DateParse test_host ''2019-01-01T00:00:00Z'' = Num 1546300800000"
  "DateParse test_host ''2019-03-01T00:00:00Z'' = Num 1551398400000"
  by (simp_all add: test_host_def)

lemma threshold_three_fields:
  "itemsPerPage threshold_three = 100"
  "reposEndpoint threshold_three = ''https://api.example/user/repos''"
  "reposParams threshold_three = [(''page'', JNumber (Num 1)), (''sort'', JStr ''updated'')]"
  "fromDate threshold_three = ''''"
  "minCommits threshold_three = 3"
  by (simp_all add: threshold_three_def example_counter_def base_counter_def)

lemma commits_of_repo: "commits_of (repo name updated n) = n"
  by (simp add: commits_of_def repo_def obj_get_def)

lemma getRepos_two_small_pages:
  "getRepos test_host serve_pages small_pages ''https://api.example/user/repos'' None
     ([(''page'', JNumber (Num 1)), (''sort'', JStr ''updated'')],
      ([JArr page_new_old, JArr page_older], 0), []) =
   Some (Inr (JArr (page_new_old @ page_older)),
         [(''page'', JNumber (Num 2)), (''sort'', JStr ''updated'')], ([], 2), [])"
proof -
  let ?p1 = "[(''page'', JNumber (Num 1)), (''sort'', JStr ''updated'')]"
  let ?p2 = "[(''page'', JNumber (Num 2)), (''sort'', JStr ''updated'')]"
  have f1: "getFromAPI serve_pages small_pages ''https://api.example/user/repos'' (JObj ?p1) []
             (([JArr page_new_old, JArr page_older], 0), []) =
           (Inr (JArr page_new_old), ([JArr page_older], 1), [])"
    by (simp add: getFromAPI_serve_pages)
  have f2: "getFromAPI serve_pages small_pages ''https://api.example/user/repos'' (JObj ?p2) []
             (([JArr page_older], 1), []) = (Inr (JArr page_older), ([], 2), [])"
    by (simp add: getFromAPI_serve_pages)
  have i1: "page_increment test_host ?p1 = Inr ?p2"
    by (simp add: page_increment_number obj_get_def)
  have r2: "getRepos test_host serve_pages small_pages ''https://api.example/user/repos'' None
              (?p2, ([JArr page_older], 1), []) = Some (Inr (JArr page_older), ?p2, ([], 2), [])"
    by (simp add: getRepos_array [OF f2] dateCutoff_absent small_pages_fields length_page_new_old length_page_older)
  show ?thesis
    by (simp add: getRepos_array [OF f1] dateCutoff_absent small_pages_fields length_page_new_old length_page_older
          i1 r2 append_next_page_array)
qed

lemma getFromAPI_paged_api:
  "getFromAPI paged_api this endpoint (JObj params) [] ((), out) =
     (Inr (if obj_get params ''page'' = JNumber (Num 1) then JArr page_a
           else if obj_get params ''page'' = JNumber (Num 2) then JArr page_c
           else JArr []), (), out)"
  by (simp add: getFromAPI_def paged_api_def request_options_def object_spread_def
        try_response_def obj_get_def js_or_def)

subsection \<open>The paginated lister\<close>

text \<open>
  C6. When the first fetch gives the failure sentinel, \<^verbatim>\<open>getRepos\<close> returns the empty
  array and raises nothing; the params object is as it was, and the world and the
  console are as that one fetch left them. When this is the first fetch of \<^verbatim>\<open>get()\<close>,
  \<^verbatim>\<open>get()\<close> returns \<^verbatim>\<open>{projects: 0, commits: 0}\<close> and raises nothing, whatever the
  counting strategy.
\<close>

theorem getRepos_first_fetch_fails:
  "(fst (getFromAPI axios this endpoint (JObj params) [] io) = Inr (JBool False) \<longrightarrow>
      getRepos h axios this endpoint fromDateObj (params, io) =
        Some (Inr (JArr []), params, snd (getFromAPI axios this endpoint (JObj params) [] io))) \<and>
   (fst (getFromAPI axios this (reposEndpoint this) (JObj (reposParams this)) [] io) =
        Inr (JBool False) \<longrightarrow>
      get h axios countAll this io =
        Some (Inr \<lparr>projects = 0, commits = 0\<rparr>, this,
              snd (getFromAPI axios this (reposEndpoint this) (JObj (reposParams this)) [] io)))"
proof (intro conjI impI)
  assume a: "fst (getFromAPI axios this endpoint (JObj params) [] io) = Inr (JBool False)"
  then have "getFromAPI axios this endpoint (JObj params) [] io =
               (Inr (JBool False), snd (getFromAPI axios this endpoint (JObj params) [] io))"
    by (metis prod.collapse)
  from getRepos_sentinel [OF this]
  show "getRepos h axios this endpoint fromDateObj (params, io) =
        Some (Inr (JArr []), params, snd (getFromAPI axios this endpoint (JObj params) [] io))"
    by simp
next
  let ?io = "snd (getFromAPI axios this (reposEndpoint this) (JObj (reposParams this)) [] io)"
  assume a: "fst (getFromAPI axios this (reposEndpoint this) (JObj (reposParams this)) [] io) =
        Inr (JBool False)"
  then have "getFromAPI axios this (reposEndpoint this) (JObj (reposParams this)) [] io =
               (Inr (JBool False), ?io)"
    by (metis prod.collapse)
  from getRepos_sentinel [OF this]
  have r: "getRepos h axios this (reposEndpoint this) fd (reposParams this, io) =
             Some (Inr (JArr []), reposParams this, ?io)" for fd
    by simp
  have g: "getAllRepos h axios this io = Some (Inr (JArr []), this, ?io)"
    by (simp add: getAllRepos_def r Let_def)
  have "aggregate h countAll this (JArr []) = Inr \<lparr>projects = 0, commits = 0\<rparr>"
    by (simp add: aggregate_def to_number_number get_loop.simps)
  with g show "get h axios countAll this io = Some (Inr \<lparr>projects = 0, commits = 0\<rparr>, this, ?io)"
    by (simp add: get_def)
qed

theorem getRepos_first_fetch_fails_witness:
  "fst (getFromAPI not_found base_counter (reposEndpoint base_counter)
          (JObj (reposParams base_counter)) [] ((), [])) = Inr (JBool False) \<and>
   getRepos test_host not_found base_counter (reposEndpoint base_counter) None
       (reposParams base_counter, (), []) =
     Some (Inr (JArr []), [], (),
           [[JStr ''   BaseCounter -'', JStr ''Failed call to  with error:'', JStr ''Not Found'']]) \<and>
   get test_host not_found getUsersRepoCommitsCountAll base_counter ((), []) =
     Some (Inr \<lparr>projects = 0, commits = 0\<rparr>, base_counter, (),
           [[JStr ''   BaseCounter -'', JStr ''Failed call to  with error:'', JStr ''Not Found'']])"
proof -
  have f: "getFromAPI not_found base_counter (reposEndpoint base_counter)
             (JObj (reposParams base_counter)) [] ((), []) =
           (Inr (JBool False), (),
            [[JStr ''   BaseCounter -'', JStr ''Failed call to  with error:'', JStr ''Not Found'']])"
    by (simp add: getFromAPI_def not_found_def try_response_def errorString_def obj_get_def
          log_def base_counter_def)
  then have s: "fst (getFromAPI not_found base_counter (reposEndpoint base_counter)
          (JObj (reposParams base_counter)) [] ((), [])) = Inr (JBool False)"
    by simp
  have p: "reposParams base_counter = []"
    by (simp add: base_counter_def)
  from getRepos_first_fetch_fails [of not_found base_counter "reposEndpoint base_counter"
      "reposParams base_counter" "((), [])" test_host None getUsersRepoCommitsCountAll] s
  show ?thesis unfolding f by (simp add: p)
qed

text \<open>
  C3. When the page fetched is a non-empty array, a \<open>fromDate\<close> was supplied, and the date
  made from the last item's updated-date field is strictly earlier than it, \<^verbatim>\<open>getRepos\<close>
  returns that page at once. No further fetch is made: the world is as the one fetch left
  it, and the params object is as it was, its \<open>page\<close> not incremented.
\<close>

theorem getRepos_date_cutoff:
  assumes "getFromAPI axios this endpoint (JObj params) [] io = (Inr (JArr xs), io')"
    and "xs \<noteq> []"
    and "get_prop (last xs) (repoUpdatedDateField this) = Inr updated"
    and "new_Date h updated = Inr repoUpdatedDate"
    and "num_lt repoUpdatedDate d"
  shows "getRepos h axios this endpoint (Some d) (params, io) = Some (Inr (JArr xs), params, io')"
  using assms(2-5) by (simp add: getRepos_array [OF assms(1)] dateCutoff_array)

theorem getRepos_date_cutoff_witness:
  "page_new_old \<noteq> [] \<and>
   get_prop (last page_new_old) (repoUpdatedDateField small_pages) =
     Inr (JStr ''2018-06-01T00:00:00Z'') \<and>
   new_Date test_host (JStr ''2018-06-01T00:00:00Z'') = Inr (Num 1527811200000) \<and>
   num_lt (Num 1527811200000) (Num 1546300800000) \<and>
   getRepos test_host serve_pages small_pages ''https://api.example/user/repos''
       (Some (Num 1546300800000))
       ([(''page'', JNumber (Num 1)), (''sort'', JStr ''updated'')],
        ([JArr page_new_old, JArr page_older], 0), []) =
     Some (Inr (JArr page_new_old),
           [(''page'', JNumber (Num 1)), (''sort'', JStr ''updated'')],
           ([JArr page_older], 1), [])"
proof -
  have f: "getFromAPI serve_pages small_pages ''https://api.example/user/repos''
             (JObj [(''page'', JNumber (Num 1)), (''sort'', JStr ''updated'')]) []
             (([JArr page_new_old, JArr page_older], 0), []) =
           (Inr (JArr page_new_old), ([JArr page_older], 1), [])"
    by (simp add: getFromAPI_serve_pages)
  have n: "page_new_old \<noteq> []"
    by (simp add: page_new_old_def)
  have u: "get_prop (last page_new_old) (repoUpdatedDateField small_pages) =
             Inr (JStr ''2018-06-01T00:00:00Z'')"
    by (simp add: page_new_old_def repo_def small_pages_fields obj_get_def)
  have d: "new_Date test_host (JStr ''2018-06-01T00:00:00Z'') = Inr (Num 1527811200000)"
    by (simp add: new_Date_string test_dates)
  have l: "num_lt (Num 1527811200000) (Num 1546300800000)"
    by simp
  from getRepos_date_cutoff [OF f n u d l] n u d l show ?thesis
    by blast
qed

text \<open>
  C10, as the code has it. When the page fetched is a non-empty array, a \<open>fromDate\<close> was
  supplied, and the last item is a record without the updated-date field, or an item
  whose field value makes an Invalid Date (\<open>undefined\<close>, NaN, a number outside the range
  of dates, a string that does not parse), the date check neither raises nor stops the
  listing, and \<^verbatim>\<open>getRepos\<close> goes on as it does for a page within the range: a full page
  is followed by the next page, a page that is not full is returned.
\<close>

theorem getRepos_invalid_date:
  assumes "getFromAPI axios this endpoint (JObj params) [] io = (Inr (JArr xs), io')"
    and "xs \<noteq> []"
    and "(last xs = JObj item \<and> map_of item (repoUpdatedDateField this) = None) \<or>
         (\<exists>updated. get_prop (last xs) (repoUpdatedDateField this) = Inr updated \<and>
                    new_Date h updated = Inr NaN)"
  shows "dateCutoff h this (JArr xs) (JNumber (Num (int (length xs)))) (Some d) = Inr False \<and>
         getRepos h axios this endpoint (Some d) (params, io) =
           (if int (length xs) = itemsPerPage this then
              (case page_increment h params of
                 Inl e \<Rightarrow> Some (Inl e, params, io')
               | Inr params' \<Rightarrow>
                   Option.bind
                     (getRepos h axios this endpoint (Some d) (params', io'))
                     (append_next_page h (JArr xs)))
            else Some (Inr (JArr xs), params, io'))"
proof -
  have "\<exists>updated. get_prop (last xs) (repoUpdatedDateField this) = Inr updated \<and>
          new_Date h updated = Inr NaN"
    using assms(3) by (auto simp: obj_get_def new_Date_undefined)
  then have c: "dateCutoff h this (JArr xs) (JNumber (Num (int (length xs)))) (Some d) = Inr False"
    using assms(2) by (auto simp: dateCutoff_array)
  then show ?thesis
    by (simp add: getRepos_array [OF assms(1)])
qed

theorem getRepos_invalid_date_witness:
  "page_undated \<noteq> [] \<and>
   last page_undated = JObj [(''name'', JStr ''undated'')] \<and>
   map_of [(''name'', JStr ''undated'')] (repoUpdatedDateField small_pages) = None \<and>
   getRepos test_host serve_pages small_pages ''https://api.example/user/repos''
       (Some (Num 1546300800000))
       ([(''page'', JNumber (Num 1)), (''sort'', JStr ''updated'')],
        ([JArr page_undated, JArr page_recent], 0), []) =
     Some (Inr (JArr (page_undated @ page_recent)),
           [(''page'', JNumber (Num 2)), (''sort'', JStr ''updated'')],
           ([], 2), [])"
proof -
  let ?g = "getRepos test_host serve_pages small_pages ''https://api.example/user/repos''
              (Some (Num 1546300800000))"
  let ?p1 = "[(''page'', JNumber (Num 1)), (''sort'', JStr ''updated'')]"
  let ?p2 = "[(''page'', JNumber (Num 2)), (''sort'', JStr ''updated'')]"
  have f1: "getFromAPI serve_pages small_pages ''https://api.example/user/repos'' (JObj ?p1) []
             (([JArr page_undated, JArr page_recent], 0), []) =
           (Inr (JArr page_undated), ([JArr page_recent], 1), [])"
    by (simp add: getFromAPI_serve_pages)
  have f2: "getFromAPI serve_pages small_pages ''https://api.example/user/repos'' (JObj ?p2) []
             (([JArr page_recent], 1), []) = (Inr (JArr page_recent), ([], 2), [])"
    by (simp add: getFromAPI_serve_pages)
  have n: "page_undated \<noteq> []"
    by (simp add: page_undated_def)
  have la: "last page_undated = JObj [(''name'', JStr ''undated'')]"
    by (simp add: page_undated_def)
  have m: "map_of [(''name'', JStr ''undated'')] (repoUpdatedDateField small_pages) = None"
    by (simp add: small_pages_fields)
  have i1: "page_increment test_host ?p1 = Inr ?p2"
    by (simp add: page_increment_number obj_get_def)
  have c2: "dateCutoff test_host small_pages (JArr page_recent)
              (JNumber (Num (int (length page_recent)))) (Some (Num 1546300800000)) = Inr False"
    by (subst dateCutoff_array)
       (simp_all add: page_recent_def repo_def small_pages_fields obj_get_def new_Date_string
          test_dates)
  have r2: "?g (?p2, ([JArr page_recent], 1), []) = Some (Inr (JArr page_recent), ?p2, ([], 2), [])"
    using c2 by (simp add: getRepos_array [OF f2] small_pages_fields length_page_undated length_page_recent)
  have "?g (?p1, ([JArr page_undated, JArr page_recent], 0), []) =
          Some (Inr (JArr (page_undated @ page_recent)), ?p2, ([], 2), [])"
    using getRepos_invalid_date [where h = test_host and d = "Num 1546300800000",
        OF f1 n disjI1 [OF conjI [OF la m]], THEN conjunct2]
    by (simp add: length_page_undated length_page_recent small_pages_fields i1 r2 append_next_page_array)
  with n la m show ?thesis by blast
qed

text \<open>
  C10, as the specification words it (any last item whose field is missing or not
  parsable as a date), fails in two ways. A field that holds \<open>null\<close> is no date, yet
  \<^verbatim>\<open>new Date(null)\<close> is the epoch, a valid date earlier than any \<open>fromDate\<close> after 1970:
  the full page is returned at once and the next page is not fetched. And a last item
  that is \<open>null\<close> has no field to read: \<^verbatim>\<open>lastRepo[this.repoUpdatedDateField]\<close> raises a
  TypeError.
\<close>

theorem getRepos_null_date_counterexample:
  "int (length page_null_date) = itemsPerPage small_pages \<and>
   get_prop (last page_null_date) (repoUpdatedDateField small_pages) = Inr JNull \<and>
   getRepos test_host serve_pages small_pages ''https://api.example/user/repos''
       (Some (Num 1546300800000))
       ([(''page'', JNumber (Num 1)), (''sort'', JStr ''updated'')],
        ([JArr page_null_date, JArr page_recent], 0), []) =
     Some (Inr (JArr page_null_date),
           [(''page'', JNumber (Num 1)), (''sort'', JStr ''updated'')],
           ([JArr page_recent], 1), []) \<and>
   last page_null_item = JNull \<and>
   getRepos test_host serve_pages small_pages ''https://api.example/user/repos''
       (Some (Num 1546300800000))
       ([(''page'', JNumber (Num 1)), (''sort'', JStr ''updated'')],
        ([JArr page_null_item, JArr page_recent], 0), []) =
     Some (Inl (TypeError ''Cannot read properties of null''),
           [(''page'', JNumber (Num 1)), (''sort'', JStr ''updated'')],
           ([JArr page_recent], 1), [])"
proof -
  let ?p1 = "[(''page'', JNumber (Num 1)), (''sort'', JStr ''updated'')]"
  have l: "int (length page_null_date) = itemsPerPage small_pages"
    by (simp add: page_null_date_def small_pages_fields)
  have u: "get_prop (last page_null_date) (repoUpdatedDateField small_pages) = Inr JNull"
    by (simp add: page_null_date_def small_pages_fields obj_get_def)
  have f1: "getFromAPI serve_pages small_pages ''https://api.example/user/repos'' (JObj ?p1) []
             (([JArr page_null_date, JArr page_recent], 0), []) =
           (Inr (JArr page_null_date), ([JArr page_recent], 1), [])"
    by (simp add: getFromAPI_serve_pages)
  have n1: "page_null_date \<noteq> []"
    by (simp add: page_null_date_def)
  have d: "new_Date test_host JNull = Inr (Num 0)"
    by (simp add: new_Date_def to_primitive_def time_clip_def)
  have c1: "dateCutoff test_host small_pages (JArr page_null_date)
              (JNumber (Num (int (length page_null_date)))) (Some (Num 1546300800000)) = Inr True"
    by (simp add: dateCutoff_array [OF n1] u d)
  have r1: "getRepos test_host serve_pages small_pages ''https://api.example/user/repos''
       (Some (Num 1546300800000)) (?p1, ([JArr page_null_date, JArr page_recent], 0), []) =
     Some (Inr (JArr page_null_date), ?p1, ([JArr page_recent], 1), [])"
    by (simp add: getRepos_array [OF f1] c1)
  have la: "last page_null_item = JNull"
    by (simp add: page_null_item_def)
  have f2: "getFromAPI serve_pages small_pages ''https://api.example/user/repos'' (JObj ?p1) []
             (([JArr page_null_item, JArr page_recent], 0), []) =
           (Inr (JArr page_null_item), ([JArr page_recent], 1), [])"
    by (simp add: getFromAPI_serve_pages)
  have n2: "page_null_item \<noteq> []"
    by (simp add: page_null_item_def)
  have c2: "dateCutoff test_host small_pages (JArr page_null_item)
              (JNumber (Num (int (length page_null_item)))) (Some (Num 1546300800000)) =
            Inl (TypeError ''Cannot read properties of null'')"
    by (simp add: dateCutoff_array [OF n2] la)
  have r2: "getRepos test_host serve_pages small_pages ''https://api.example/user/repos''
       (Some (Num 1546300800000)) (?p1, ([JArr page_null_item, JArr page_recent], 0), []) =
     Some (Inl (TypeError ''Cannot read properties of null''), ?p1, ([JArr page_recent], 1), [])"
    by (simp add: getRepos_array [OF f2] c2)
  from l u r1 la r2 show ?thesis by blast
qed

text \<open>
  C2. When the page fetched is an array and the date check does not stop the listing: a
  page whose length is not \<open>itemsPerPage\<close> is returned as it is; a page whose length is
  \<open>itemsPerPage\<close> has \<^verbatim>\<open>params.page\<close> incremented (a page number \<open>n\<close> becomes \<open>n + 1\<close>),
  the next page is fetched by the recursive call from the state that the first fetch
  left, and an array that the recursive call returns is appended after the items of
  this page.
\<close>

theorem getRepos_next_page:
  assumes "getFromAPI axios this endpoint (JObj params) [] io = (Inr (JArr xs), io')"
    and "dateCutoff h this (JArr xs) (JNumber (Num (int (length xs)))) fromDateObj = Inr False"
  shows "(int (length xs) \<noteq> itemsPerPage this \<longrightarrow>
            getRepos h axios this endpoint fromDateObj (params, io) =
              Some (Inr (JArr xs), params, io')) \<and>
         (obj_get params ''page'' = JNumber (Num n) \<longrightarrow>
            page_increment h params = Inr (obj_set ''page'' (JNumber (Num (n + 1))) params)) \<and>
         (int (length xs) = itemsPerPage this \<and> page_increment h params = Inr params' \<longrightarrow>
            getRepos h axios this endpoint fromDateObj (params, io) =
              Option.bind (getRepos h axios this endpoint fromDateObj (params', io'))
                (append_next_page h (JArr xs))) \<and>
         (int (length xs) = itemsPerPage this \<and> page_increment h params = Inr params' \<and>
          getRepos h axios this endpoint fromDateObj (params', io') = Some (Inr (JArr ys), st) \<longrightarrow>
            getRepos h axios this endpoint fromDateObj (params, io) =
              Some (Inr (JArr (xs @ ys)), st))"
proof -
  have "getRepos h axios this endpoint fromDateObj (params, io) =
          (if int (length xs) = itemsPerPage this then
             (case page_increment h params of
                Inl e \<Rightarrow> Some (Inl e, params, io')
              | Inr params' \<Rightarrow>
                  Option.bind (getRepos h axios this endpoint fromDateObj (params', io'))
                    (append_next_page h (JArr xs)))
           else Some (Inr (JArr xs), params, io'))"
    using assms(2) by (simp add: getRepos_array [OF assms(1)])
  then show ?thesis
    by (auto simp: page_increment_number append_next_page_array)
qed

theorem getRepos_next_page_witness:
  "getRepos test_host serve_pages example_counter ''https://api.example/user/repos'' None
     ([(''page'', JNumber (Num 1)), (''sort'', JStr ''updated'')],
      ([JArr page_a, JArr page_b, JArr page_c], 0), []) =
   Some (Inr (JArr (page_a @ page_b @ page_c)),
         [(''page'', JNumber (Num 3)), (''sort'', JStr ''updated'')], ([], 3), []) \<and>
   length (page_a @ page_b @ page_c) = 237"
proof -
  let ?g = "getRepos test_host serve_pages example_counter ''https://api.example/user/repos'' None"
  let ?p1 = "[(''page'', JNumber (Num 1)), (''sort'', JStr ''updated'')]"
  let ?p2 = "[(''page'', JNumber (Num 2)), (''sort'', JStr ''updated'')]"
  let ?p3 = "[(''page'', JNumber (Num 3)), (''sort'', JStr ''updated'')]"
  have i1: "page_increment test_host ?p1 = Inr ?p2"
    by (simp add: page_increment_number obj_get_def)
  have i2: "page_increment test_host ?p2 = Inr ?p3"
    by (simp add: page_increment_number obj_get_def)
  have f3: "getFromAPI serve_pages example_counter ''https://api.example/user/repos'' (JObj ?p3) []
              (([JArr page_c], 2), []) = (Inr (JArr page_c), ([], 3), [])"
    by (simp add: getFromAPI_serve_pages)
  have f2: "getFromAPI serve_pages example_counter ''https://api.example/user/repos'' (JObj ?p2) []
              (([JArr page_b, JArr page_c], 1), []) = (Inr (JArr page_b), ([JArr page_c], 2), [])"
    by (simp add: getFromAPI_serve_pages)
  have f1: "getFromAPI serve_pages example_counter ''https://api.example/user/repos'' (JObj ?p1) []
              (([JArr page_a, JArr page_b, JArr page_c], 0), []) =
              (Inr (JArr page_a), ([JArr page_b, JArr page_c], 1), [])"
    by (simp add: getFromAPI_serve_pages)
  have l3: "int (length page_c) \<noteq> itemsPerPage example_counter"
    and l2: "int (length page_b) = itemsPerPage example_counter"
    and l1: "int (length page_a) = itemsPerPage example_counter"
    by (simp_all add: length_page_a length_page_b length_page_c example_counter_fields)
  have r3: "?g (?p3, ([JArr page_c], 2), []) = Some (Inr (JArr page_c), ?p3, ([], 3), [])"
    using getRepos_next_page [OF f3 dateCutoff_absent, THEN conjunct1] l3 by blast
  have r2: "?g (?p2, ([JArr page_b, JArr page_c], 1), []) =
              Some (Inr (JArr (page_b @ page_c)), ?p3, ([], 3), [])"
    using getRepos_next_page [OF f2 dateCutoff_absent, THEN conjunct2, THEN conjunct2,
        THEN conjunct2] l2 i2 r3
    by blast
  have r1: "?g (?p1, ([JArr page_a, JArr page_b, JArr page_c], 0), []) =
              Some (Inr (JArr (page_a @ page_b @ page_c)), ?p3, ([], 3), [])"
    using getRepos_next_page [OF f1 dateCutoff_absent, THEN conjunct2, THEN conjunct2,
        THEN conjunct2] l1 i1 r2
    by blast
  then show ?thesis by (simp add: length_page_a length_page_b length_page_c)
qed

text \<open>
  C9. Whatever \<^verbatim>\<open>getRepos\<close> returns or throws, every property of the params object other
  than \<open>page\<close> has the value it had, none is added and none removed; the object is either
  untouched or has a number under \<open>page\<close>, and a page number has not decreased. The same
  holds for \<^verbatim>\<open>this.reposParams\<close> across \<^verbatim>\<open>get()\<close>, which changes no other field of the
  instance.
\<close>

theorem params_frame:
  "(getRepos h axios this endpoint fromDateObj (params, io) = Some (r, params', io') \<longrightarrow>
      (\<forall>k. k \<noteq> ''page'' \<longrightarrow> map_of params' k = map_of params k) \<and>
      (params' = params \<or> (\<exists>n. map_of params' ''page'' = Some (JNumber n))) \<and>
      (\<forall>n. obj_get params ''page'' = JNumber (Num n) \<longrightarrow>
           (\<exists>m\<ge>n. obj_get params' ''page'' = JNumber (Num m)))) \<and>
   (get h axios countAll this io = Some (r', this', io'') \<longrightarrow>
      (\<forall>k. k \<noteq> ''page'' \<longrightarrow> map_of (reposParams this') k = map_of (reposParams this) k) \<and>
      (reposParams this' = reposParams this \<or>
       (\<exists>n. map_of (reposParams this') ''page'' = Some (JNumber n))) \<and>
      (\<forall>n. obj_get (reposParams this) ''page'' = JNumber (Num n) \<longrightarrow>
           (\<exists>m\<ge>n. obj_get (reposParams this') ''page'' = JNumber (Num m))) \<and>
      this' = this\<lparr>reposParams := reposParams this'\<rparr>)"
proof (rule conjI; rule impI)
  assume "getRepos h axios this endpoint fromDateObj (params, io) = Some (r, params', io')"
  from getRepos_frame [OF this]
  show "(\<forall>k. k \<noteq> ''page'' \<longrightarrow> map_of params' k = map_of params k) \<and>
      (params' = params \<or> (\<exists>n. map_of params' ''page'' = Some (JNumber n))) \<and>
      (\<forall>n. obj_get params ''page'' = JNumber (Num n) \<longrightarrow>
           (\<exists>m\<ge>n. obj_get params' ''page'' = JNumber (Num m)))"
    by simp
next
  assume g: "get h axios countAll this io = Some (r', this', io'')"
  then obtain x where a: "getAllRepos h axios this io = Some (x, this', io'')"
    using get_Some by blast
  then obtain fd where "getRepos h axios this (reposEndpoint this) fd (reposParams this, io) =
                          Some (x, reposParams this', io'')"
    and t: "this' = this\<lparr>reposParams := reposParams this'\<rparr>"
    by (auto simp: getAllRepos_def Let_def split: if_splits)
  from getRepos_frame [OF this(1)] t
  show "(\<forall>k. k \<noteq> ''page'' \<longrightarrow> map_of (reposParams this') k = map_of (reposParams this) k) \<and>
      (reposParams this' = reposParams this \<or>
       (\<exists>n. map_of (reposParams this') ''page'' = Some (JNumber n))) \<and>
      (\<forall>n. obj_get (reposParams this) ''page'' = JNumber (Num n) \<longrightarrow>
           (\<exists>m\<ge>n. obj_get (reposParams this') ''page'' = JNumber (Num m))) \<and>
      this' = this\<lparr>reposParams := reposParams this'\<rparr>"
    by simp
qed

theorem params_frame_witness:
  "getRepos test_host serve_pages small_pages ''https://api.example/user/repos'' None
     ([(''page'', JNumber (Num 1)), (''sort'', JStr ''updated'')],
      ([JArr page_new_old, JArr page_older], 0), []) =
   Some (Inr (JArr (page_new_old @ page_older)),
         [(''page'', JNumber (Num 2)), (''sort'', JStr ''updated'')], ([], 2), []) \<and>
   map_of [(''page'', JNumber (Num 2)), (''sort'', JStr ''updated'')] ''sort'' =
     map_of [(''page'', JNumber (Num 1)), (''sort'', JStr ''updated'')] ''sort'' \<and>
   get test_host serve_pages commits_of small_pages (([JArr page_new_old, JArr page_older], 0), []) =
     Some (Inr \<lparr>projects = 3, commits = 15\<rparr>,
           small_pages\<lparr>reposParams := [(''page'', JNumber (Num 2)), (''sort'', JStr ''updated'')]\<rparr>,
           ([], 2), []) \<and>
   map_of (reposParams
       (small_pages\<lparr>reposParams := [(''page'', JNumber (Num 2)), (''sort'', JStr ''updated'')]\<rparr>))
       ''sort'' =
     map_of (reposParams small_pages) ''sort''"
proof -
  let ?p1 = "[(''page'', JNumber (Num 1)), (''sort'', JStr ''updated'')]"
  let ?p2 = "[(''page'', JNumber (Num 2)), (''sort'', JStr ''updated'')]"
  note r = getRepos_two_small_pages
  have a: "getAllRepos test_host serve_pages small_pages
             (([JArr page_new_old, JArr page_older], 0), []) =
           Some (Inr (JArr (page_new_old @ page_older)), small_pages\<lparr>reposParams := ?p2\<rparr>,
                 ([], 2), [])"
    by (rule getAllRepos_no_date) (simp_all add: small_pages_fields js_trim_empty r)
  have g: "get test_host serve_pages commits_of small_pages
             (([JArr page_new_old, JArr page_older], 0), []) =
           Some (Inr \<lparr>projects = 3, commits = 15\<rparr>, small_pages\<lparr>reposParams := ?p2\<rparr>,
                 ([], 2), [])"
    using get_of_array [OF a, of commits_of]
    by (simp add: page_new_old_def page_older_def commits_of_repo small_pages_fields)
  have s: "''sort'' \<noteq> ''page''" by simp
  from params_frame [THEN conjunct1, rule_format, OF r, THEN conjunct1, rule_format, OF s]
  have k1: "map_of ?p2 ''sort'' = map_of ?p1 ''sort''" .
  from params_frame [THEN conjunct2, rule_format, OF g, THEN conjunct1, rule_format, OF s]
  have k2: "map_of (reposParams (small_pages\<lparr>reposParams := ?p2\<rparr>)) ''sort'' =
              map_of (reposParams small_pages) ''sort''" .
  from r k1 g k2 show ?thesis by blast
qed

subsection \<open>The aggregator\<close>

text \<open>
  C1. When the lister returns the array \<open>repos\<close>, \<^verbatim>\<open>get()\<close> returns as \<open>commits\<close> the sum
  of the per-repo counts that are greater than 0, and as \<open>projects\<close> the number of repos
  whose count is greater than 0 and at least \<open>minCommits\<close>, for every counting strategy.
\<close>

theorem get_totals:
  assumes "getAllRepos h axios this io = Some (Inr (JArr repos), this', io')"
  shows "get h axios countAll this io =
           Some (Inr \<lparr>projects =
                        int (length (filter (\<lambda>r. 0 < countAll r \<and> minCommits this \<le> countAll r)
                                       repos)),
                      commits = sum_list (filter (\<lambda>n. 0 < n) (map countAll repos))\<rparr>,
                 this', io')"
  using assms by (rule get_of_array)

theorem get_totals_witness:
  "getAllRepos test_host serve_pages threshold_three (([JArr three_repos], 0), []) =
     Some (Inr (JArr three_repos), threshold_three, ([], 1), []) \<and>
   map commits_of three_repos = [0, 5, 2] \<and>
   get test_host serve_pages commits_of threshold_three (([JArr three_repos], 0), []) =
     Some (Inr \<lparr>projects = 1, commits = 7\<rparr>, threshold_three, ([], 1), []) \<and>
   getAllRepos test_host serve_pages threshold_three (([JArr two_idle_repos], 0), []) =
     Some (Inr (JArr two_idle_repos), threshold_three, ([], 1), []) \<and>
   map commits_of two_idle_repos = [0, 0] \<and>
   get test_host serve_pages commits_of threshold_three (([JArr two_idle_repos], 0), []) =
     Some (Inr \<lparr>projects = 0, commits = 0\<rparr>, threshold_three, ([], 1), [])"
proof -
  have a3: "getAllRepos test_host serve_pages threshold_three (([JArr three_repos], 0), []) =
     Some (Inr (JArr three_repos), threshold_three, ([], 1), [])"
    by (rule getAllRepos_one_page)
       (simp_all add: threshold_three_fields js_trim_empty getFromAPI_serve_pages three_repos_def)
  have a2: "getAllRepos test_host serve_pages threshold_three (([JArr two_idle_repos], 0), []) =
     Some (Inr (JArr two_idle_repos), threshold_three, ([], 1), [])"
    by (rule getAllRepos_one_page)
       (simp_all add: threshold_three_fields js_trim_empty getFromAPI_serve_pages
          two_idle_repos_def)
  have c3: "map commits_of three_repos = [0, 5, 2]"
    by (simp add: three_repos_def commits_of_repo)
  have c2: "map commits_of two_idle_repos = [0, 0]"
    by (simp add: two_idle_repos_def commits_of_repo)
  have g3: "get test_host serve_pages commits_of threshold_three (([JArr three_repos], 0), []) =
     Some (Inr \<lparr>projects = 1, commits = 7\<rparr>, threshold_three, ([], 1), [])"
    using get_totals [OF a3, of commits_of]
    by (simp add: three_repos_def commits_of_repo threshold_three_fields)
  have g2: "get test_host serve_pages commits_of threshold_three (([JArr two_idle_repos], 0), []) =
     Some (Inr \<lparr>projects = 0, commits = 0\<rparr>, threshold_three, ([], 1), [])"
    using get_totals [OF a2, of commits_of]
    by (simp add: two_idle_repos_def commits_of_repo threshold_three_fields)
  from a3 c3 g3 a2 c2 g2 show ?thesis by blast
qed

text \<open>
  C7 fails on the code. \<^verbatim>\<open>getAllRepos\<close> hands \<^verbatim>\<open>this.reposParams\<close> itself to
  \<^verbatim>\<open>getRepos\<close>, which increments its \<open>page\<close>, so a second \<^verbatim>\<open>get()\<close> on the instance
  starts at the page where the first one ended. With a server that answers page 1 with
  100 repos and page 2 with 37, each with one commit, the first call counts 137 and the
  second 37.
\<close>

theorem get_twice_differs:
  "get test_host paged_api commits_of example_counter ((), []) =
     Some (Inr \<lparr>projects = 137, commits = 137\<rparr>,
           example_counter\<lparr>reposParams := [(''page'', JNumber (Num 2)), (''sort'', JStr ''updated'')]\<rparr>,
           (), []) \<and>
   get test_host paged_api commits_of
       (example_counter\<lparr>reposParams := [(''page'', JNumber (Num 2)), (''sort'', JStr ''updated'')]\<rparr>)
       ((), []) =
     Some (Inr \<lparr>projects = 37, commits = 37\<rparr>,
           example_counter\<lparr>reposParams := [(''page'', JNumber (Num 2)), (''sort'', JStr ''updated'')]\<rparr>,
           (), [])"
proof -
  let ?p1 = "[(''page'', JNumber (Num 1)), (''sort'', JStr ''updated'')]"
  let ?p2 = "[(''page'', JNumber (Num 2)), (''sort'', JStr ''updated'')]"
  let ?ep = "''https://api.example/user/repos''"
  let ?second = "example_counter\<lparr>reposParams := ?p2\<rparr>"
  have f1: "getFromAPI paged_api this ?ep (JObj ?p1) [] ((), []) = (Inr (JArr page_a), (), [])"
    for this
    by (simp add: getFromAPI_paged_api obj_get_def)
  have f2: "getFromAPI paged_api this ?ep (JObj ?p2) [] ((), []) = (Inr (JArr page_c), (), [])"
    for this
    by (simp add: getFromAPI_paged_api obj_get_def)
  have i1: "page_increment test_host ?p1 = Inr ?p2"
    by (simp add: page_increment_number obj_get_def)
  have r2: "getRepos test_host paged_api this ?ep None (?p2, (), []) =
              Some (Inr (JArr page_c), ?p2, (), [])"
    if "itemsPerPage this = 100" for this
    using that by (simp add: getRepos_array [OF f2] dateCutoff_absent length_page_a length_page_c)
  have r1: "getRepos test_host paged_api example_counter ?ep None (?p1, (), []) =
              Some (Inr (JArr (page_a @ page_c)), ?p2, (), [])"
    by (simp add: getRepos_array [OF f1] dateCutoff_absent length_page_a length_page_c example_counter_fields
          i1 r2 append_next_page_array)
  have a1: "getAllRepos test_host paged_api example_counter ((), []) =
              Some (Inr (JArr (page_a @ page_c)), ?second, (), [])"
    by (rule getAllRepos_no_date) (simp_all add: example_counter_fields js_trim_empty r1)
  have a2: "getAllRepos test_host paged_api ?second ((), []) =
              Some (Inr (JArr page_c), ?second, (), [])"
  proof -
    have "getAllRepos test_host paged_api ?second ((), []) =
            Some (Inr (JArr page_c), ?second\<lparr>reposParams := ?p2\<rparr>, (), [])"
      by (rule getAllRepos_no_date) (simp_all add: example_counter_fields js_trim_empty r2)
    then show ?thesis by simp
  qed
  have g1: "get test_host paged_api commits_of example_counter ((), []) =
              Some (Inr \<lparr>projects = 137, commits = 137\<rparr>, ?second, (), [])"
    using get_of_array [OF a1, of commits_of]
    by (simp add: page_a_def page_c_def commits_of_repo example_counter_fields
          sum_list_replicate)
  have g2: "get test_host paged_api commits_of ?second ((), []) =
              Some (Inr \<lparr>projects = 37, commits = 37\<rparr>, ?second, (), [])"
    using get_of_array [OF a2, of commits_of]
    by (simp add: page_c_def commits_of_repo example_counter_fields sum_list_replicate)
  from g1 g2 show ?thesis by blast
qed

end
